theory Spec2Isabelle
  imports Main "HOL-Library.Sublist"
begin

section \<open>The type mapper (package generate, \<open>typeFromClangType\<close>)\<close>

subsection \<open>Go and C type names\<close>

abbreviation GoByte :: string where "GoByte \<equiv> ''byte''"
abbreviation GoInt8 :: string where "GoInt8 \<equiv> ''int8''"
abbreviation GoUInt8 :: string where "GoUInt8 \<equiv> ''uint8''"
abbreviation GoInt16 :: string where "GoInt16 \<equiv> ''int16''"
abbreviation GoUInt16 :: string where "GoUInt16 \<equiv> ''uint16''"
abbreviation GoInt32 :: string where "GoInt32 \<equiv> ''int32''"
abbreviation GoUInt32 :: string where "GoUInt32 \<equiv> ''uint32''"
abbreviation GoInt64 :: string where "GoInt64 \<equiv> ''int64''"
abbreviation GoUInt64 :: string where "GoUInt64 \<equiv> ''uint64''"
abbreviation GoFloat32 :: string where "GoFloat32 \<equiv> ''float32''"
abbreviation GoFloat64 :: string where "GoFloat64 \<equiv> ''float64''"
abbreviation GoBool :: string where "GoBool \<equiv> ''bool''"
abbreviation GoInterface :: string where "GoInterface \<equiv> ''interface''"
abbreviation GoPointer :: string where "GoPointer \<equiv> ''unsafe.Pointer''"

abbreviation CChar :: string where "CChar \<equiv> ''char''"
abbreviation CSChar :: string where "CSChar \<equiv> ''schar''"
abbreviation CUChar :: string where "CUChar \<equiv> ''uchar''"
abbreviation CShort :: string where "CShort \<equiv> ''short''"
abbreviation CUShort :: string where "CUShort \<equiv> ''ushort''"
abbreviation CInt :: string where "CInt \<equiv> ''int''"
abbreviation CUInt :: string where "CUInt \<equiv> ''uint''"
abbreviation CLongInt :: string where "CLongInt \<equiv> ''long''"
abbreviation CULongInt :: string where "CULongInt \<equiv> ''ulong''"
abbreviation CLongLong :: string where "CLongLong \<equiv> ''longlong''"
abbreviation CULongLong :: string where "CULongLong \<equiv> ''ulonglong''"
abbreviation CFloat :: string where "CFloat \<equiv> ''float''"
abbreviation CDouble :: string where "CDouble \<equiv> ''double''"

subsection \<open>The generation type\<close>

text \<open>
  The struct \<open>Type\<close> of package generate. \<open>PointerLevel\<close> is a Go \<open>int\<close>; it is only
  ever increased by one per nested call of the type mapper, so it cannot reach the
  machine bound before the call stack is exhausted, and it is modelled as an unbounded
  integer. \<open>ArraySize\<close> is an \<open>int64\<close> that is copied, never computed with.
\<close>

record Type =
  CName :: string
  CGoName :: string
  GoName :: string
  PointerLevel :: int
  IsPrimitive :: bool
  IsArray :: bool
  ArraySize :: int
  IsEnumLiteral :: bool
  IsFunctionPointer :: bool
  IsReturnArgument :: bool
  IsSlice :: bool
  LengthOfSlice :: string
  IsPointerComposition :: bool

subsection \<open>The introspection interface\<close>

text \<open>
  The kinds of \<open>clang.Type\<close>: the constants of the introspection library's
  \<open>TypeKind\<close>, one for each type kind of libclang. The type mapper names twenty-one
  of them; every other kind takes the \<open>default\<close> branch.
\<close>

datatype TypeKind =
    TK_Invalid | TK_Unexposed | TK_Void | TK_Bool | TK_Char_U | TK_UChar
  | TK_Char16 | TK_Char32 | TK_UShort | TK_UInt | TK_ULong | TK_ULongLong
  | TK_UInt128 | TK_Char_S | TK_SChar | TK_WChar | TK_Short | TK_Int | TK_Long
  | TK_LongLong | TK_Int128 | TK_Float | TK_Double | TK_LongDouble | TK_NullPtr
  | TK_Overload | TK_Dependent | TK_ObjCId | TK_ObjCClass | TK_ObjCSel
  | TK_Complex | TK_Pointer | TK_BlockPointer | TK_LValueReference
  | TK_RValueReference | TK_Record | TK_Enum | TK_Typedef | TK_ObjCInterface
  | TK_ObjCObjectPointer | TK_FunctionNoProto | TK_FunctionProto
  | TK_ConstantArray | TK_Vector | TK_IncompleteArray | TK_VariableArray
  | TK_DependentSizedArray | TK_MemberPointer

text \<open>
  \<open>clang.Type\<close> and \<open>clang.Cursor\<close> are opaque handles of the introspection library;
  the type mapper reaches everything through their methods. The methods it calls are
  the fields of this record, over handles \<open>'t\<close> (types) and \<open>'c\<close> (cursors):
  \<open>cType.Kind()\<close> is \<open>Kind api cType\<close>, \<open>cType.Declaration().Type().TypeSpelling()\<close>
  is \<open>TypeSpelling api (CursorType api (Declaration api cType))\<close>, and so on.
  \<open>ArraySizeOf\<close> is the method \<open>ArraySize\<close> (the name is taken by the field of
  \<open>Type\<close>).
\<close>

record ('t, 'c) clang =
  Kind :: "'t \<Rightarrow> TypeKind"
  TypeSpelling :: "'t \<Rightarrow> string"
  ArrayElementType :: "'t \<Rightarrow> 't"
  ArraySizeOf :: "'t \<Rightarrow> int"
  PointeeType :: "'t \<Rightarrow> 't"
  CanonicalType :: "'t \<Rightarrow> 't"
  Declaration :: "'t \<Rightarrow> 'c"
  CursorType :: "'c \<Rightarrow> 't"
  DisplayName :: "'c \<Rightarrow> string"

text \<open>
  The error of the \<open>default\<close> branch,
  \<open>fmt.Errorf("unhandled type %q of kind %q", cType.TypeSpelling(), cType.Kind().Spelling())\<close>:
  the value keeps the two things the message is built from.
\<close>

datatype error = UnhandledTypeKind string TypeKind

text \<open>The composite literal that \<open>typeFromClangType\<close> starts from.\<close>

definition typ_init :: "string \<Rightarrow> Type" where
  "typ_init spelling =
     \<lparr> CName = spelling, CGoName = [], GoName = [],
       PointerLevel = 0, IsPrimitive = True, IsArray = False, ArraySize = - 1,
       IsEnumLiteral = False, IsFunctionPointer = False, IsReturnArgument = False,
       IsSlice = False, LengthOfSlice = [], IsPointerComposition = False \<rparr>"

text \<open>
  \<open>typeFromClangType\<close>. The function calls itself on the element type, the pointee and
  the canonical type, which are whatever the library hands back, so nothing bounds
  the recursion: it is a partial function, \<open>None\<close> when the Go function does not
  return. \<open>Some (Inl e)\<close> is the return \<open>(Type{}, err)\<close>, \<open>Some (Inr typ)\<close> the return
  \<open>(typ, nil)\<close>. \<open>TrimLanguagePrefix\<close> is a helper of the package that is not
  among the sources; it is the parameter \<open>trim\<close>.
\<close>

partial_function (option) typeFromClangType ::
  "('t, 'c) clang \<Rightarrow> (string \<Rightarrow> string) \<Rightarrow> 't \<Rightarrow> (error + Type) option"
where
  "typeFromClangType api trim cType =
    (let typ = typ_init (TypeSpelling api cType) in
     case Kind api cType of
       TK_Char_S \<Rightarrow> Some (Inr (typ\<lparr>CGoName := CSChar, GoName := GoInt8\<rparr>))
     | TK_Char_U \<Rightarrow> Some (Inr (typ\<lparr>CGoName := CUChar, GoName := GoUInt8\<rparr>))
     | TK_Int \<Rightarrow> Some (Inr (typ\<lparr>CGoName := CInt, GoName := GoInt16\<rparr>))
     | TK_Short \<Rightarrow> Some (Inr (typ\<lparr>CGoName := CShort, GoName := GoInt16\<rparr>))
     | TK_UShort \<Rightarrow> Some (Inr (typ\<lparr>CGoName := CUShort, GoName := GoUInt16\<rparr>))
     | TK_UInt \<Rightarrow> Some (Inr (typ\<lparr>CGoName := CUInt, GoName := GoUInt16\<rparr>))
     | TK_Long \<Rightarrow> Some (Inr (typ\<lparr>CGoName := CLongInt, GoName := GoInt32\<rparr>))
     | TK_ULong \<Rightarrow> Some (Inr (typ\<lparr>CGoName := CULongInt, GoName := GoUInt32\<rparr>))
     | TK_LongLong \<Rightarrow> Some (Inr (typ\<lparr>CGoName := CLongLong, GoName := GoInt64\<rparr>))
     | TK_ULongLong \<Rightarrow> Some (Inr (typ\<lparr>CGoName := CULongLong, GoName := GoUInt64\<rparr>))
     | TK_Float \<Rightarrow> Some (Inr (typ\<lparr>CGoName := CFloat, GoName := GoFloat32\<rparr>))
     | TK_Double \<Rightarrow> Some (Inr (typ\<lparr>CGoName := CDouble, GoName := GoFloat64\<rparr>))
     | TK_Bool \<Rightarrow> Some (Inr (typ\<lparr>GoName := GoBool\<rparr>))
     | TK_Void \<Rightarrow> Some (Inr (typ\<lparr>CGoName := ''void'', GoName := ''void''\<rparr>))
     | TK_ConstantArray \<Rightarrow>
         Option.bind (typeFromClangType api trim (ArrayElementType api cType))
           (\<lambda>r. case r of
              Inl err \<Rightarrow> Some (Inl err)
            | Inr subTyp \<Rightarrow>
                Some (Inr (typ\<lparr>CGoName := CGoName subTyp, GoName := GoName subTyp,
                  PointerLevel := PointerLevel typ + PointerLevel subTyp,
                  IsArray := True, ArraySize := ArraySizeOf api cType\<rparr>)))
     | TK_Typedef \<Rightarrow>
         (let typ = typ\<lparr>IsPrimitive := False\<rparr>;
              typeStr = TypeSpelling api cType;
              (typ, typeStr) =
                (if typeStr = ''CXString'' then (typ, ''cxstring'')
                 else if typeStr = ''time_t''
                   then (typ\<lparr>CGoName := typeStr, IsPrimitive := True\<rparr>, ''time.Time'')
                 else (typ, trim (TypeSpelling api (CursorType api (Declaration api cType)))));
              typ = typ\<lparr>CGoName := TypeSpelling api (CursorType api (Declaration api cType)),
                        GoName := typeStr\<rparr>;
              typ = (if Kind api (CanonicalType api cType) = TK_Enum
                     then typ\<lparr>IsEnumLiteral := True, IsPrimitive := True\<rparr> else typ)
          in Some (Inr typ))
     | TK_Pointer \<Rightarrow>
         (let typ = typ\<lparr>PointerLevel := PointerLevel typ + 1\<rparr>;
              typ = (if Kind api (CanonicalType api (PointeeType api cType)) = TK_FunctionProto
                     then typ\<lparr>IsFunctionPointer := True\<rparr> else typ)
          in Option.bind (typeFromClangType api trim (PointeeType api cType))
           (\<lambda>r. case r of
              Inl err \<Rightarrow> Some (Inl err)
            | Inr subTyp \<Rightarrow>
                Some (Inr (typ\<lparr>CGoName := CGoName subTyp, GoName := GoName subTyp,
                  PointerLevel := PointerLevel typ + PointerLevel subTyp,
                  IsPrimitive := IsPrimitive subTyp\<rparr>))))
     | TK_Record \<Rightarrow>
         (let typ = typ\<lparr>CGoName := TypeSpelling api (CursorType api (Declaration api cType))\<rparr>
          in Some (Inr (typ\<lparr>GoName := trim (CGoName typ), IsPrimitive := False\<rparr>)))
     | TK_FunctionProto \<Rightarrow>
         (let typ = typ\<lparr>IsFunctionPointer := True,
                        CGoName := TypeSpelling api (CursorType api (Declaration api cType))\<rparr>
          in Some (Inr (typ\<lparr>GoName := trim (CGoName typ)\<rparr>)))
     | TK_Enum \<Rightarrow>
         Some (Inr (typ\<lparr>GoName := trim (DisplayName api (Declaration api cType)),
                        IsEnumLiteral := True, IsPrimitive := True\<rparr>))
     | TK_Unexposed \<Rightarrow>
         Option.bind (typeFromClangType api trim (CanonicalType api cType))
           (\<lambda>r. case r of
              Inl err \<Rightarrow> Some (Inl err)
            | Inr subTyp \<Rightarrow>
                Some (Inr (typ\<lparr>CGoName := CGoName subTyp, GoName := GoName subTyp,
                  PointerLevel := PointerLevel typ + PointerLevel subTyp,
                  IsPrimitive := IsPrimitive subTyp\<rparr>)))
     | _ \<Rightarrow> Some (Inl (UnhandledTypeKind (TypeSpelling api cType) (Kind api cType))))"

declare typeFromClangType.simps [code]

text \<open>
  What the statements about the type mapper are phrased with. \<open>handled\<close> lists the
  kinds that have a \<open>case\<close> of their own in the switch. Three of them make the
  function call itself: \<open>wraps\<close>; \<open>inner\<close> is the type it calls itself on.
  \<open>trimmed_name\<close> is the result of \<open>TrimLanguagePrefix\<close> where the target name is
  made with it.
\<close>

definition handled :: "TypeKind \<Rightarrow> bool" where
  "handled k = (k \<in> set [TK_Char_S, TK_Char_U, TK_Int, TK_Short, TK_UShort, TK_UInt,
     TK_Long, TK_ULong, TK_LongLong, TK_ULongLong, TK_Float, TK_Double, TK_Bool, TK_Void,
     TK_ConstantArray, TK_Typedef, TK_Pointer, TK_Record, TK_FunctionProto, TK_Enum,
     TK_Unexposed])"

definition wraps :: "TypeKind \<Rightarrow> bool" where
  "wraps k = (k = TK_ConstantArray \<or> k = TK_Pointer \<or> k = TK_Unexposed)"

definition inner :: "('t, 'c) clang \<Rightarrow> 't \<Rightarrow> 't" where
  "inner api cType =
     (case Kind api cType of
        TK_ConstantArray \<Rightarrow> ArrayElementType api cType
      | TK_Pointer \<Rightarrow> PointeeType api cType
      | TK_Unexposed \<Rightarrow> CanonicalType api cType
      | _ \<Rightarrow> cType)"

definition trimmed_name ::
  "('t, 'c) clang \<Rightarrow> (string \<Rightarrow> string) \<Rightarrow> 't \<Rightarrow> string option" where
  "trimmed_name api trim cType =
     (case Kind api cType of
        TK_Typedef \<Rightarrow>
          (if TypeSpelling api cType = ''CXString'' \<or> TypeSpelling api cType = ''time_t''
           then None
           else Some (trim (TypeSpelling api (CursorType api (Declaration api cType)))))
      | TK_Record \<Rightarrow> Some (trim (TypeSpelling api (CursorType api (Declaration api cType))))
      | TK_FunctionProto \<Rightarrow>
          Some (trim (TypeSpelling api (CursorType api (Declaration api cType))))
      | TK_Enum \<Rightarrow> Some (trim (DisplayName api (Declaration api cType)))
      | _ \<Rightarrow> None)"

section \<open>Naming heuristics (\<open>ArrayNameFromLength\<close>)\<close>

text \<open>
  Go strings are byte sequences, as \<open>string\<close> is. \<open>strings.HasPrefix\<close>,
  \<open>strings.TrimPrefix\<close>, \<open>strings.HasSuffix\<close> and \<open>strings.TrimSuffix\<close> of the
  standard library:
\<close>

definition HasPrefix :: "string \<Rightarrow> string \<Rightarrow> bool" where
  "HasPrefix s p = (length s \<ge> length p \<and> take (length p) s = p)"

definition TrimPrefix :: "string \<Rightarrow> string \<Rightarrow> string" where
  "TrimPrefix s p = (if HasPrefix s p then drop (length p) s else s)"

definition HasSuffix :: "string \<Rightarrow> string \<Rightarrow> bool" where
  "HasSuffix s suf = (length s \<ge> length suf \<and> drop (length s - length suf) s = suf)"

definition TrimSuffix :: "string \<Rightarrow> string \<Rightarrow> string" where
  "TrimSuffix s suf = (if HasSuffix s suf then take (length s - length suf) s else s)"

text \<open>
  \<open>unicode.IsUpper\<close> on the code points a single byte converts to (\<open>rune(pan[0])\<close> is
  at most \<open>0xFF\<close>): the upper case letters of Latin-1 are \<open>A\<close> to \<open>Z\<close> and \<open>0xC0\<close> to
  \<open>0xDE\<close> without the multiplication sign \<open>0xD7\<close>.
\<close>

definition IsUpper :: "nat \<Rightarrow> bool" where
  "IsUpper r = ((0x41 \<le> r \<and> r \<le> 0x5A) \<or> (0xC0 \<le> r \<and> r \<le> 0xD6) \<or> (0xD8 \<le> r \<and> r \<le> 0xDE))"

text \<open>The run-time panic of an index expression: the index and the length.\<close>

datatype panic = IndexOutOfRange nat nat

text \<open>
  \<open>ArrayNameFromLength\<close>. The third condition is
  \<open>len(pan) != len(lengthCName) && unicode.IsUpper(rune(pan[0]))\<close>: the right operand is
  evaluated only when the left one holds, and \<open>pan[0]\<close> panics on an empty \<open>pan\<close>.
  The condition is therefore a value of \<open>panic + bool\<close>. The result \<open>Inr []\<close> is the
  final \<open>return ""\<close>.
\<close>

definition ArrayNameFromLength :: "string \<Rightarrow> panic + string" where
  "ArrayNameFromLength lengthCName =
    (let pan = TrimPrefix lengthCName ''num_'' in
     if length pan \<noteq> length lengthCName then Inr pan
     else let pan = TrimPrefix lengthCName ''num'' in
     if length pan \<noteq> length lengthCName then Inr pan
     else let pan = TrimPrefix lengthCName ''Num'' in
     case (if length pan \<noteq> length lengthCName
           then (if 0 < length pan then Inr (IsUpper (of_char (pan ! 0)))
                 else Inl (IndexOutOfRange 0 (length pan)))
           else Inr False) of
       Inl p \<Rightarrow> Inl p
     | Inr True \<Rightarrow> Inr pan
     | Inr False \<Rightarrow>
         (let pan = TrimSuffix lengthCName ''_size'' in
          if length pan \<noteq> length lengthCName then Inr pan
          else Inr []))"

text \<open>
  The rules as the specification words them (\<open>deriveArrayName\<close>, with \<open>None\<close> for
  "no match"), to compare \<open>ArrayNameFromLength\<close> with. "Starts with an uppercase
  letter" is read on the first byte, as the code reads it. \<open>size_rule\<close> is the last
  rule alone, in the code's result type.
\<close>

definition deriveArrayName :: "string \<Rightarrow> string option" where
  "deriveArrayName lengthFieldName =
    (if prefix ''num_'' lengthFieldName then Some (drop 4 lengthFieldName)
     else if prefix ''num'' lengthFieldName then Some (drop 3 lengthFieldName)
     else if prefix ''Num'' lengthFieldName \<and>
             (case drop 3 lengthFieldName of [] \<Rightarrow> False | c # _ \<Rightarrow> IsUpper (of_char c))
       then Some (drop 3 lengthFieldName)
     else if suffix ''_size'' lengthFieldName
       then Some (take (length lengthFieldName - 5) lengthFieldName)
     else None)"

definition size_rule :: "string \<Rightarrow> panic + string" where
  "size_rule s = (if suffix ''_size'' s then Inr (take (length s - 5) s) else Inr [])"

section \<open>A small translation unit to evaluate on\<close>

text \<open>
  Modelled from the spec: \<open>TrimLanguagePrefix\<close> is not among the sources; the
  specification describes it as stripping the library-specific prefix from a record,
  enum or typedef name, and the generated bindings expose the native
  \<open>CXTranslationUnit\<close> as \<open>TranslationUnit\<close>. The general statements below hold for
  any function in its place; this one is used where a concrete input is evaluated.
\<close>

definition TrimLanguagePrefix :: "string \<Rightarrow> string" where
  "TrimLanguagePrefix name = TrimPrefix name ''CX''"

text \<open>
  Type handles: 0 is \<open>int\<close>, 1 is \<open>int *\<close>, 2 is \<open>int **\<close>, 3 is \<open>int [4]\<close>, 4 is the enum
  \<open>CXCursorKind\<close> reported with kind unexposed, 5 its canonical type, 6 an enum without
  a name, 7 a vector type, 8 a pointer to it, 9 an unexposed type that is its own
  canonical type, 10 to 18 the remaining integer kinds of the switch (10 and 11 are
  plain \<open>char\<close>, signed and unsigned by the platform), 19 is \<open>signed char\<close> and 20 is
  \<open>unsigned char\<close>. Cursor 1 declares \<open>CXCursorKind\<close>, cursor 2 the enum without a
  name.
\<close>

definition ex_Kind :: "nat \<Rightarrow> TypeKind" where
  "ex_Kind t =
    (if t = 0 then TK_Int else if t = 1 then TK_Pointer else if t = 2 then TK_Pointer
     else if t = 3 then TK_ConstantArray else if t = 4 then TK_Unexposed
     else if t = 5 then TK_Enum else if t = 6 then TK_Enum else if t = 7 then TK_Vector
     else if t = 8 then TK_Pointer else if t = 9 then TK_Unexposed
     else if t = 10 then TK_Char_S else if t = 11 then TK_Char_U
     else if t = 12 then TK_Short else if t = 13 then TK_UShort
     else if t = 14 then TK_UInt else if t = 15 then TK_Long
     else if t = 16 then TK_ULong else if t = 17 then TK_LongLong
     else if t = 18 then TK_ULongLong else if t = 19 then TK_SChar
     else if t = 20 then TK_UChar else TK_Invalid)"

definition ex_TypeSpelling :: "nat \<Rightarrow> string" where
  "ex_TypeSpelling t =
    (if t = 0 then ''int'' else if t = 1 then ''int *'' else if t = 2 then ''int **''
     else if t = 3 then ''int [4]'' else if t = 4 then ''enum CXCursorKind''
     else if t = 5 then ''enum CXCursorKind'' else if t = 6 then ''enum (anonymous)''
     else if t = 7 then ''vec4'' else if t = 8 then ''vec4 *''
     else if t = 9 then ''_Atomic(int)'' else if t = 10 then ''char''
     else if t = 11 then ''char'' else if t = 12 then ''short''
     else if t = 13 then ''unsigned short'' else if t = 14 then ''unsigned int''
     else if t = 15 then ''long'' else if t = 16 then ''unsigned long''
     else if t = 17 then ''long long'' else if t = 18 then ''unsigned long long''
     else if t = 19 then ''signed char'' else if t = 20 then ''unsigned char''
     else [])"

definition ex_api :: "(nat, nat) clang" where
  "ex_api =
    \<lparr> Kind = ex_Kind, TypeSpelling = ex_TypeSpelling,
      ArrayElementType = (\<lambda>t. if t = 3 then 0 else 99),
      ArraySizeOf = (\<lambda>t. if t = 3 then 4 else - 1),
      PointeeType = (\<lambda>t. if t = 1 then 0 else if t = 2 then 1 else if t = 8 then 7 else 99),
      CanonicalType = (\<lambda>t. if t = 4 then 5 else t),
      Declaration = (\<lambda>t. if t = 4 \<or> t = 5 then 1 else if t = 6 then 2 else 0),
      CursorType = (\<lambda>c. if c = 1 then 5 else if c = 2 then 6 else 99),
      DisplayName = (\<lambda>c. if c = 1 then ''CXCursorKind'' else []) \<rparr>"

definition ex_int :: Type where
  "ex_int = (typ_init ''int'')\<lparr>CGoName := CInt, GoName := GoInt16\<rparr>"


section \<open>The function synthesizer (package main)\<close>

subsection \<open>Descriptors\<close>

text \<open>
  Modelled from the spec: the declarations of the structs \<open>Type\<close> and \<open>Receiver\<close> of
  package main are not among the sources (the \<open>Type\<close> above is the one of package
  generate, with other field names). The fields are the ones the functions below
  read and write: \<open>Name\<close> is the target name of the specification, \<open>Primitive\<close> its
  marshal name (empty for a composite), \<open>CName\<close> the native spelling. Field names
  carry the initial of their struct, since Isabelle has one name space for all of
  them: \<open>t_Name\<close> is \<open>Type.Name\<close>, \<open>p_Name\<close> is \<open>FunctionParameter.Name\<close>, and so on.
\<close>

record GenType =
  t_Name :: string
  t_Primitive :: string
  t_CName :: string
  t_PointerLevel :: int
  t_IsPrimitive :: bool
  t_IsReturnArgument :: bool

record Receiver =
  r_Name :: string
  r_Type :: GenType

record FunctionParameter =
  p_Name :: string
  p_CName :: string
  p_Type :: GenType

record Function =
  f_Name :: string
  f_CName :: string
  f_Comment :: string
  f_Parameters :: "FunctionParameter list"
  f_ReturnType :: GenType
  f_Receiver :: Receiver
  f_Member :: string

subsection \<open>The syntax tree that is built\<close>

text \<open>
  The nodes of \<open>go/ast\<close> and the tokens of \<open>go/token\<close> that \<open>generateASTFunction\<close>
  builds. An \<open>*ast.Ident\<close> in a name position (\<open>Sel\<close>, \<open>Names\<close>) is its name. The
  function declaration is flattened: \<open>Params\<close> and \<open>Results\<close> are
  \<open>Type.Params.List\<close> and \<open>Type.Results.List\<close>, \<open>Body\<close> is \<open>Body.List\<close>, and \<open>None\<close> is
  a field list that is \<open>nil\<close>.
\<close>

datatype Token = token_VAR | token_DEFINE | token_AND | token_NEQ | token_INT

datatype Expr =
    Ident string
  | SelectorExpr Expr string
  | CallExpr Expr "Expr list"
  | UnaryExpr Token Expr
  | BinaryExpr Expr Token Expr
  | BasicLit Token string
  | CompositeLit Expr "Expr list"

datatype Field = Field "string list" Expr

datatype Spec = ValueSpec "string list" Expr

datatype Decl = GenDecl Token "Spec list"

datatype Stmt =
    ExprStmt Expr
  | DeclStmt Decl
  | DeferStmt Expr
  | AssignStmt "Expr list" Token "Expr list"
  | ReturnStmt "Expr list"

record FuncDecl =
  Recv :: "Field list option"
  Name :: string
  Params :: "Field list option"
  Results :: "Field list"
  Body :: "Stmt list"

text \<open>The closures at the head of \<open>generateASTFunction\<close>.\<close>

definition accessMember :: "string \<Rightarrow> string \<Rightarrow> Expr" where
  "accessMember variable member = SelectorExpr (Ident variable) member"

definition emptyLine :: Stmt where
  "emptyLine = ExprStmt (CallExpr (Ident ''REMOVE'') [])"

definition doCall :: "string \<Rightarrow> string \<Rightarrow> Expr list \<Rightarrow> Expr" where
  "doCall variable method args = CallExpr (accessMember variable method) args"

definition doCType :: "string \<Rightarrow> Expr" where
  "doCType c = accessMember ''C'' c"

definition doCCast :: "string \<Rightarrow> Expr list \<Rightarrow> Expr" where
  "doCCast ty args = doCall ''C'' ty args"

subsection \<open>\<open>generateASTFunction\<close>\<close>

text \<open>
  What the function has built so far: the parameter fields, the result fields, the
  statements of the body, the results of the return statement \<open>retur\<close>, the arguments
  of the native call \<open>call\<close>, and the two flags.
\<close>

record gen =
  g_Params :: "Field list"
  g_Results :: "Field list"
  g_Body :: "Stmt list"
  g_retur :: "Expr list"
  g_args :: "Expr list"
  hasReturnArguments :: bool
  goToCTypeConversions :: bool

definition addStatement :: "Stmt \<Rightarrow> gen \<Rightarrow> gen" where
  "addStatement stmt st = st\<lparr>g_Body := g_Body st @ [stmt]\<rparr>"

definition addEmptyLine :: "gen \<Rightarrow> gen" where
  "addEmptyLine st = addStatement emptyLine st"

text \<open>
  The loop \<open>// Add parameters to the function\<close>, from index \<open>i\<close> on; \<open>recv\<close> is
  \<open>f.Receiver.Name\<close>.
\<close>

fun addParameters :: "string \<Rightarrow> nat \<Rightarrow> FunctionParameter list \<Rightarrow> gen \<Rightarrow> gen" where
  "addParameters recv i [] st = st"
| "addParameters recv i (p # ps) st =
    addParameters recv (Suc i) ps
     (if i = 0 \<and> recv \<noteq> [] then st
      else if t_IsReturnArgument (p_Type p) then
        (let st = st\<lparr>hasReturnArguments := True\<rparr>;
             retType = (if t_Name (p_Type p) = ''cxstring'' then ''string''
                        else t_Name (p_Type p));
             st = st\<lparr>g_Results := g_Results st @ [Field [] (Ident retType)]\<rparr>;
             varType = (if t_Primitive (p_Type p) \<noteq> [] then doCType (t_Primitive (p_Type p))
                        else Ident (t_Name (p_Type p)));
             st = addStatement (DeclStmt (GenDecl token_VAR [ValueSpec [p_Name p] varType])) st;
             st = (if t_Name (p_Type p) = ''cxstring''
                   then addStatement (DeferStmt (doCall (p_Name p) ''Dispose'' [])) st
                   else st)
         in if t_Primitive (p_Type p) \<noteq> [] then
              st\<lparr>g_retur := g_retur st @ [CallExpr (Ident (t_Name (p_Type p))) [Ident (p_Name p)]]\<rparr>
            else if t_Name (p_Type p) = ''cxstring'' then
              st\<lparr>g_retur := g_retur st @ [doCall (p_Name p) ''String'' []]\<rparr>
            else st\<lparr>g_retur := g_retur st @ [Ident (p_Name p)]\<rparr>)
      else st\<lparr>g_Params := g_Params st @ [Field [p_Name p] (Ident (t_Name (p_Type p)))]\<rparr>)"

text \<open>The loop \<open>// Add arguments to the C function call\<close>.\<close>

fun addArguments :: "FunctionParameter list \<Rightarrow> gen \<Rightarrow> gen" where
  "addArguments [] st = st"
| "addArguments (p # ps) st =
    addArguments ps
     (let (pf, st) =
        (if t_Primitive (p_Type p) \<noteq> [] then
           (if t_CName (p_Type p) = ''const char *'' then
              (let st = st\<lparr>goToCTypeConversions := True\<rparr>;
                   st = addStatement (AssignStmt [Ident (''c_'' @ p_Name p)] token_DEFINE
                          [doCCast ''CString'' [Ident (p_Name p)]]) st;
                   st = addStatement (DeferStmt (doCCast ''free''
                          [doCall ''unsafe'' ''Pointer'' [Ident (''c_'' @ p_Name p)]])) st
               in (Ident (''c_'' @ p_Name p), st))
            else if t_Primitive (p_Type p) = ''cxstring'' then
              (accessMember (p_Name p) ''c'', st)
            else if t_IsReturnArgument (p_Type p) then (Ident (p_Name p), st)
            else (doCCast (t_Primitive (p_Type p)) [Ident (p_Name p)], st))
         else (accessMember (p_Name p) ''c'', st));
          pf = (if t_IsReturnArgument (p_Type p) then UnaryExpr token_AND pf else pf)
      in st\<lparr>g_args := g_args st @ [pf]\<rparr>)"

text \<open>
  The parameters as the loops see them: with a receiver, the first parameter has
  been given the receiver's name (\<open>f.Parameters[0].Name = f.Receiver.Name\<close>).
\<close>

definition renamed :: "Function \<Rightarrow> FunctionParameter list" where
  "renamed f =
    (case f_Parameters f of
       [] \<Rightarrow> []
     | p # ps \<Rightarrow> (if r_Name (f_Receiver f) \<noteq> []
                  then p\<lparr>p_Name := r_Name (f_Receiver f)\<rparr> # ps else p # ps))"

definition gen_init :: gen where
  "gen_init = \<lparr> g_Params = [], g_Results = [], g_Body = [], g_retur = [], g_args = [],
                hasReturnArguments = False, goToCTypeConversions = False \<rparr>"

text \<open>The block \<open>if len(f.Parameters) != 0 { ... }\<close>.\<close>

definition withParameters :: "Function \<Rightarrow> gen" where
  "withParameters f =
    (if length (f_Parameters f) \<noteq> 0 then
       (let st = addParameters (r_Name (f_Receiver f)) 0 (renamed f) gen_init;
            st = (if hasReturnArguments st then addEmptyLine st else st);
            st = addArguments (renamed f) st
        in if goToCTypeConversions st then addEmptyLine st else st)
     else gen_init)"

text \<open>
  The block \<open>// Check if we need to add a return\<close>, given the finished native call.
  The assignment to the last result field cannot fall outside the list: the return
  type is not void there, so a field has just been appended.
\<close>

definition addReturn :: "GenType \<Rightarrow> Expr \<Rightarrow> gen \<Rightarrow> gen" where
  "addReturn rt call st =
    (if t_Name rt \<noteq> ''void'' \<or> hasReturnArguments st then
       (let st = (if t_Name rt \<noteq> ''void''
                  then st\<lparr>g_Results := g_Results st @ [Field [] (Ident (t_Name rt))]\<rparr>
                  else st);
            st =
             (if t_Name rt = ''bool'' \<and> t_Primitive rt \<noteq> [] then
                (let st = addStatement (AssignStmt [Ident ''o''] token_DEFINE [call]) st;
                     st = addEmptyLine st
                 in st\<lparr>g_retur := g_retur st @
                      [BinaryExpr (Ident ''o'') token_NEQ
                         (doCCast (t_Primitive rt) [BasicLit token_INT ''0''])]\<rparr>)
              else if t_Name rt = ''string'' then
                st\<lparr>g_retur := g_retur st @ [doCCast ''GoString'' [call]]\<rparr>
              else if t_Name rt = ''cxstring'' then
                (let st = addStatement (AssignStmt [Ident ''o''] token_DEFINE
                            [CompositeLit (Ident ''cxstring'') [call]]) st;
                     st = addStatement (DeferStmt (doCall ''o'' ''Dispose'' [])) st;
                     st = addEmptyLine st;
                     st = st\<lparr>g_retur := g_retur st @ [doCall ''o'' ''String'' []]\<rparr>
                 in st\<lparr>g_Results := (g_Results st)
                      [length (g_Results st) - 1 := Field [] (Ident ''string'')]\<rparr>)
              else if t_Name rt = ''time.Time'' then
                st\<lparr>g_retur := g_retur st @
                  [doCall ''time'' ''Unix''
                     [CallExpr (Ident ''int64'') [call], BasicLit token_INT ''0'']]\<rparr>
              else if t_Name rt = ''void'' then
                addEmptyLine (addStatement (ExprStmt call) st)
              else
                (let convCall =
                       (if t_Primitive rt = [] then CompositeLit (Ident (t_Name rt)) [call]
                        else CallExpr (Ident (t_Name rt)) [call])
                 in if hasReturnArguments st then
                      (let st = addStatement (AssignStmt [Ident ''o''] token_DEFINE [convCall]) st;
                           st = addEmptyLine st
                       in st\<lparr>g_retur := g_retur st @ [Ident ''o'']\<rparr>)
                    else st\<lparr>g_retur := g_retur st @ [convCall]\<rparr>))
        in addStatement (ReturnStmt (g_retur st)) st)
     else addStatement (ExprStmt call) st)"

text \<open>
  The native call \<open>call\<close> once its arguments are complete, and the function itself.
  The model ends with the declaration that the source hands to \<open>format.Node\<close>;
  printing it, deleting the text \<open>REMOVE()\<close> and putting the comment in front are
  the emission layer.
\<close>

definition nativeCall :: "Function \<Rightarrow> Expr" where
  "nativeCall f = doCCast (f_CName f) (g_args (withParameters f))"

definition generateASTFunction :: "Function \<Rightarrow> FuncDecl" where
  "generateASTFunction f =
    (let st = addReturn (f_ReturnType f) (nativeCall f) (withParameters f)
     in \<lparr> Recv =
            (if r_Name (f_Receiver f) \<noteq> [] \<and> length (f_Parameters f) > 0
             then Some [Field [r_Name (f_Receiver f)] (Ident (t_Name (r_Type (f_Receiver f))))]
             else None),
          Name = f_Name f,
          Params = (if length (f_Parameters f) \<noteq> 0 then Some (g_Params st) else None),
          Results = g_Results st,
          Body = g_Body st \<rparr>)"

subsection \<open>\<open>generateFunction\<close>\<close>

text \<open>
  \<open>trimClangPrefix\<close>, \<open>receiverName\<close> and \<open>upperFirstCharacter\<close> are helpers of the
  package that are not among the sources; they are parameters. \<open>GoInt32\<close> and
  \<open>GoBool\<close> are the constants of the list of Go types above.
\<close>

definition generateFunction ::
  "(string \<Rightarrow> string) \<Rightarrow> (string \<Rightarrow> string) \<Rightarrow> (string \<Rightarrow> string) \<Rightarrow>
   string \<Rightarrow> string \<Rightarrow> string \<Rightarrow> string \<Rightarrow> GenType \<Rightarrow> Function" where
  "generateFunction trimClangPrefix receiverName upperFirstCharacter
     name cname comment member ty =
    (let receiverType = trimClangPrefix cname;
         receiverName = receiverName receiverType;
         functionName = upperFirstCharacter name;
         ty = (if t_IsPrimitive ty then ty\<lparr>t_Primitive := t_Name ty\<rparr> else ty);
         ty = (if (HasPrefix name ''has'' \<or> HasPrefix name ''is'') \<and> t_Name ty = GoInt32
               then ty\<lparr>t_Name := GoBool\<rparr> else ty)
     in \<lparr> f_Name = functionName, f_CName = cname, f_Comment = comment,
          f_Parameters = [], f_ReturnType = ty,
          f_Receiver = \<lparr> r_Name = receiverName,
            r_Type = \<lparr> t_Name = receiverType, t_Primitive = [], t_CName = [],
                       t_PointerLevel = 0, t_IsPrimitive = False,
                       t_IsReturnArgument = False \<rparr> \<rparr>,
          f_Member = member \<rparr>)"

subsection \<open>Vocabulary for the statements about the synthesizer\<close>

text \<open>
  The pieces of a generated function, written as syntax trees, for the theorems to
  compare the result of \<open>generateASTFunction\<close> with. An out-parameter is a parameter
  whose type has \<open>IsReturnArgument\<close> set. \<open>processed\<close> are the parameters that the
  first loop does not skip, \<open>promoted\<close> the out-parameters among them, in the order
  of the native declaration.
\<close>

definition isOut :: "FunctionParameter \<Rightarrow> bool" where
  "isOut p = t_IsReturnArgument (p_Type p)"

definition processed :: "Function \<Rightarrow> FunctionParameter list" where
  "processed f = (if r_Name (f_Receiver f) \<noteq> [] then drop 1 (renamed f) else renamed f)"

definition promoted :: "Function \<Rightarrow> FunctionParameter list" where
  "promoted f = filter isOut (processed f)"

text \<open>\<open>name T\<close> in the parameter list.\<close>

definition inField :: "FunctionParameter \<Rightarrow> Field" where
  "inField p = Field [p_Name p] (Ident (t_Name (p_Type p)))"

text \<open>
  For an out-parameter: its entry in the result list; \<open>var name C.prim\<close> or
  \<open>var name T\<close>; \<open>defer name.Dispose()\<close>; the statements it adds to the body; and its
  entry in the return statement, \<open>T(name)\<close>, \<open>name.String()\<close> or \<open>name\<close>.
\<close>

definition outResult :: "FunctionParameter \<Rightarrow> Field" where
  "outResult p =
     Field [] (Ident (if t_Name (p_Type p) = ''cxstring'' then ''string''
                      else t_Name (p_Type p)))"

definition outDecl :: "FunctionParameter \<Rightarrow> Stmt" where
  "outDecl p =
     DeclStmt (GenDecl token_VAR [ValueSpec [p_Name p]
       (if t_Primitive (p_Type p) \<noteq> [] then SelectorExpr (Ident ''C'') (t_Primitive (p_Type p))
        else Ident (t_Name (p_Type p)))])"

definition outDispose :: "FunctionParameter \<Rightarrow> Stmt" where
  "outDispose p = DeferStmt (CallExpr (SelectorExpr (Ident (p_Name p)) ''Dispose'') [])"

definition outStmts :: "FunctionParameter \<Rightarrow> Stmt list" where
  "outStmts p = outDecl p # (if t_Name (p_Type p) = ''cxstring'' then [outDispose p] else [])"

definition outValue :: "FunctionParameter \<Rightarrow> Expr" where
  "outValue p =
     (if t_Primitive (p_Type p) \<noteq> [] then CallExpr (Ident (t_Name (p_Type p))) [Ident (p_Name p)]
      else if t_Name (p_Type p) = ''cxstring''
        then CallExpr (SelectorExpr (Ident (p_Name p)) ''String'') []
      else Ident (p_Name p))"

text \<open>
  A parameter with a marshal name and the native type \<open>const char *\<close>;
  \<open>c_name := C.CString(name)\<close>; \<open>defer C.free(unsafe.Pointer(c_name))\<close>.
\<close>

definition isCString :: "FunctionParameter \<Rightarrow> bool" where
  "isCString p = (t_Primitive (p_Type p) \<noteq> [] \<and> t_CName (p_Type p) = ''const char *'')"

definition strAlloc :: "FunctionParameter \<Rightarrow> Stmt" where
  "strAlloc p =
     AssignStmt [Ident (''c_'' @ p_Name p)] token_DEFINE
       [CallExpr (SelectorExpr (Ident ''C'') ''CString'') [Ident (p_Name p)]]"

definition strFree :: "FunctionParameter \<Rightarrow> Stmt" where
  "strFree p =
     DeferStmt (CallExpr (SelectorExpr (Ident ''C'') ''free'')
       [CallExpr (SelectorExpr (Ident ''unsafe'') ''Pointer'') [Ident (''c_'' @ p_Name p)]])"

definition strConv :: "FunctionParameter \<Rightarrow> Stmt list" where
  "strConv p = [strAlloc p, strFree p]"

text \<open>
  The argument of the native call for a parameter: \<open>name.c\<close> for a composite,
  \<open>c_name\<close> for a native string, \<open>name.c\<close> for the marshal name \<open>cxstring\<close>, \<open>name\<close>
  for another out-parameter, \<open>C.prim(name)\<close> otherwise; with \<open>&\<close> in front for an
  out-parameter.
\<close>

definition argInner :: "FunctionParameter \<Rightarrow> Expr" where
  "argInner p =
     (if t_Primitive (p_Type p) = [] then SelectorExpr (Ident (p_Name p)) ''c''
      else if t_CName (p_Type p) = ''const char *'' then Ident (''c_'' @ p_Name p)
      else if t_Primitive (p_Type p) = ''cxstring'' then SelectorExpr (Ident (p_Name p)) ''c''
      else if isOut p then Ident (p_Name p)
      else CallExpr (SelectorExpr (Ident ''C'') (t_Primitive (p_Type p))) [Ident (p_Name p)])"

definition argExpr :: "FunctionParameter \<Rightarrow> Expr" where
  "argExpr p = (if isOut p then UnaryExpr token_AND (argInner p) else argInner p)"

text \<open>
  The entry of the primary result in the result list and in the return statement,
  for a return type that is not void.
\<close>

definition primaryResult :: "GenType \<Rightarrow> Field" where
  "primaryResult rt =
     Field [] (Ident (if t_Name rt = ''cxstring'' then ''string'' else t_Name rt))"

text \<open>
  The number of statements in front of the block that places the native call, and
  occurrence of an expression in a statement.
\<close>

definition callPos :: "Function \<Rightarrow> nat" where
  "callPos f = length (g_Body (withParameters f))"

fun subexprs :: "Expr \<Rightarrow> Expr list" where
  "subexprs (Ident n) = [Ident n]"
| "subexprs (SelectorExpr x s) = SelectorExpr x s # subexprs x"
| "subexprs (CallExpr g as) = CallExpr g as # subexprs g @ concat (map subexprs as)"
| "subexprs (UnaryExpr t x) = UnaryExpr t x # subexprs x"
| "subexprs (BinaryExpr x t y) = BinaryExpr x t y # subexprs x @ subexprs y"
| "subexprs (BasicLit t v) = [BasicLit t v]"
| "subexprs (CompositeLit x es) = CompositeLit x es # subexprs x @ concat (map subexprs es)"

fun stmt_exprs :: "Stmt \<Rightarrow> Expr list" where
  "stmt_exprs (ExprStmt e) = [e]"
| "stmt_exprs (DeclStmt (GenDecl t specs)) = map (\<lambda>s. case s of ValueSpec ns e \<Rightarrow> e) specs"
| "stmt_exprs (DeferStmt e) = [e]"
| "stmt_exprs (AssignStmt ls t rs) = ls @ rs"
| "stmt_exprs (ReturnStmt es) = es"

definition occurs :: "Expr \<Rightarrow> Stmt \<Rightarrow> bool" where
  "occurs e s = (e \<in> set (concat (map subexprs (stmt_exprs s))))"

subsection \<open>Functions to evaluate on\<close>

text \<open>
  \<open>ex_File\<close> and \<open>ex_IsFileMultipleIncludeGuarded\<close> describe two of the methods of the
  generated translation unit binding (\<open>clang_getFile\<close> with its string parameter,
  \<open>clang_isFileMultipleIncludeGuarded\<close> with its truth flag in an unsigned int).
  \<open>ex_UniqueID\<close> has a primitive primary result and one out-parameter, as
  \<open>int clang_getFileUniqueID(CXFile file, CXFileUniqueID *outID)\<close>. In \<open>ex_recv_out\<close>
  the only parameter is bound to the receiver and is flagged as an out-parameter.
\<close>

definition ty_composite :: "string \<Rightarrow> string \<Rightarrow> GenType" where
  "ty_composite name cname =
     \<lparr> t_Name = name, t_Primitive = [], t_CName = cname, t_PointerLevel = 0,
       t_IsPrimitive = False, t_IsReturnArgument = False \<rparr>"

definition ty_primitive :: "string \<Rightarrow> string \<Rightarrow> string \<Rightarrow> GenType" where
  "ty_primitive name prim cname =
     \<lparr> t_Name = name, t_Primitive = prim, t_CName = cname, t_PointerLevel = 0,
       t_IsPrimitive = True, t_IsReturnArgument = False \<rparr>"

definition ex_File :: Function where
  "ex_File =
    \<lparr> f_Name = ''File'', f_CName = ''clang_getFile'', f_Comment = [],
      f_Parameters =
        [\<lparr> p_Name = ''tu'', p_CName = ''tu'',
           p_Type = ty_composite ''TranslationUnit'' ''CXTranslationUnit'' \<rparr>,
         \<lparr> p_Name = ''file_name'', p_CName = ''file_name'',
           p_Type = ty_primitive ''string'' ''char'' ''const char *'' \<rparr>],
      f_ReturnType = ty_composite ''File'' ''CXFile'',
      f_Receiver = \<lparr> r_Name = ''tu'', r_Type = ty_composite ''TranslationUnit'' [] \<rparr>,
      f_Member = [] \<rparr>"

definition ex_IsFileMultipleIncludeGuarded :: Function where
  "ex_IsFileMultipleIncludeGuarded =
    \<lparr> f_Name = ''IsFileMultipleIncludeGuarded'',
      f_CName = ''clang_isFileMultipleIncludeGuarded'', f_Comment = [],
      f_Parameters =
        [\<lparr> p_Name = ''tu'', p_CName = ''tu'',
           p_Type = ty_composite ''TranslationUnit'' ''CXTranslationUnit'' \<rparr>,
         \<lparr> p_Name = ''file'', p_CName = ''file'',
           p_Type = ty_composite ''File'' ''CXFile'' \<rparr>],
      f_ReturnType = ty_primitive ''bool'' ''uint'' ''unsigned int'',
      f_Receiver = \<lparr> r_Name = ''tu'', r_Type = ty_composite ''TranslationUnit'' [] \<rparr>,
      f_Member = [] \<rparr>"

definition ex_UniqueID :: Function where
  "ex_UniqueID =
    \<lparr> f_Name = ''UniqueID'', f_CName = ''clang_getFileUniqueID'', f_Comment = [],
      f_Parameters =
        [\<lparr> p_Name = ''file'', p_CName = ''file'', p_Type = ty_composite ''File'' ''CXFile'' \<rparr>,
         \<lparr> p_Name = ''outID'', p_CName = ''outID'',
           p_Type = (ty_composite ''FileUniqueID'' ''CXFileUniqueID *'')
                      \<lparr>t_PointerLevel := 1, t_IsReturnArgument := True\<rparr> \<rparr>],
      f_ReturnType = ty_primitive ''int16'' ''int'' ''int'',
      f_Receiver = \<lparr> r_Name = ''f'', r_Type = ty_composite ''File'' [] \<rparr>,
      f_Member = [] \<rparr>"

definition ex_recv_out :: Function where
  "ex_recv_out =
    \<lparr> f_Name = ''Fill'', f_CName = ''clang_fill'', f_Comment = [],
      f_Parameters =
        [\<lparr> p_Name = ''out'', p_CName = ''out'',
           p_Type = (ty_composite ''Result'' ''CXResult *'')
                      \<lparr>t_PointerLevel := 1, t_IsReturnArgument := True\<rparr> \<rparr>],
      f_ReturnType = ty_primitive ''void'' ''void'' ''void'',
      f_Receiver = \<lparr> r_Name = ''r'', r_Type = ty_composite ''Result'' [] \<rparr>,
      f_Member = [] \<rparr>"

section \<open>Properties of the type mapper\<close>

subsection \<open>One unfolding of the switch\<close>

lemmas typeFromClangType_induct =
  typeFromClangType.raw_induct [rotated 1, consumes 1, case_names step]

lemma bind_sum_Inr:
  "Option.bind m (\<lambda>r. case r of Inl err \<Rightarrow> Some (Inl err) | Inr sub \<Rightarrow> Some (Inr (g sub)))
     = Some (Inr ty)
   \<Longrightarrow> \<exists>sub. m = Some (Inr sub) \<and> ty = g sub"
  by (cases m) (auto split: sum.splits)

lemma typeFromClangType_unhandled:
  "\<not> handled (Kind api t) \<Longrightarrow>
   typeFromClangType api trim t =
     Some (Inl (UnhandledTypeKind (TypeSpelling api t) (Kind api t)))"
  by (subst typeFromClangType.simps, cases "Kind api t") (simp_all add: handled_def)

lemma typeFromClangType_leaf:
  "handled (Kind api t) \<Longrightarrow> \<not> wraps (Kind api t) \<Longrightarrow>
   \<exists>ty. typeFromClangType api trim t = Some (Inr ty) \<and>
      (GoName ty = [] \<longrightarrow> trimmed_name api trim t = Some [])"
  by (subst typeFromClangType.simps, cases "Kind api t")
     (simp_all add: handled_def wraps_def trimmed_name_def typ_init_def Let_def)

lemma typeFromClangType_wrap:
  "wraps (Kind api t) \<Longrightarrow> typeFromClangType api trim (inner api t) = Some r \<Longrightarrow>
   \<exists>r'. typeFromClangType api trim t = Some r' \<and>
      (case r of Inl e \<Rightarrow> r' = Inl e
       | Inr sub \<Rightarrow> \<exists>ty. r' = Inr ty \<and> GoName ty = GoName sub)"
  by (subst typeFromClangType.simps, cases "Kind api t")
     (auto simp: wraps_def inner_def Let_def split: sum.splits)

lemma typeFromClangType_pointer:
  "Kind api t = TK_Pointer \<Longrightarrow>
   typeFromClangType api trim (PointeeType api t) = Some (Inr sub) \<Longrightarrow>
   typeFromClangType api trim t =
     Some (Inr ((typ_init (TypeSpelling api t))
       \<lparr>CGoName := CGoName sub, GoName := GoName sub,
        PointerLevel := 1 + PointerLevel sub, IsPrimitive := IsPrimitive sub,
        IsFunctionPointer :=
          (Kind api (CanonicalType api (PointeeType api t)) = TK_FunctionProto)\<rparr>))"
  by (subst typeFromClangType.simps) (simp add: typ_init_def Let_def)

lemma typeFromClangType_array:
  "Kind api t = TK_ConstantArray \<Longrightarrow>
   typeFromClangType api trim (ArrayElementType api t) = Some (Inr sub) \<Longrightarrow>
   typeFromClangType api trim t =
     Some (Inr ((typ_init (TypeSpelling api t))
       \<lparr>CGoName := CGoName sub, GoName := GoName sub,
        PointerLevel := PointerLevel sub, IsArray := True,
        ArraySize := ArraySizeOf api t\<rparr>))"
  by (subst typeFromClangType.simps) (simp add: typ_init_def Let_def)

lemma typeFromClangType_unexposed:
  "Kind api t = TK_Unexposed \<Longrightarrow>
   typeFromClangType api trim (CanonicalType api t) = Some (Inr sub) \<Longrightarrow>
   typeFromClangType api trim t =
     Some (Inr ((typ_init (TypeSpelling api t))
       \<lparr>CGoName := CGoName sub, GoName := GoName sub,
        PointerLevel := PointerLevel sub, IsPrimitive := IsPrimitive sub\<rparr>))"
  by (subst typeFromClangType.simps) (simp add: typ_init_def Let_def)

lemma typeFromClangType_PointerLevel_nonneg:
  "typeFromClangType api trim t = Some y \<Longrightarrow>
   (case y of Inl _ \<Rightarrow> True | Inr ty \<Rightarrow> 0 \<le> PointerLevel ty)"
proof (induction rule: typeFromClangType_induct)
  case (step f api trim t y)
  have IH: "\<And>t' s. f api trim t' = Some (Inr s) \<Longrightarrow> 0 \<le> PointerLevel s"
    using step(1) by force
  show ?case
  proof (cases y)
    case (Inl e)
    then show ?thesis by simp
  next
    case (Inr ty)
    with step(2) have "0 \<le> PointerLevel ty"
      by (cases "Kind api t")
         (auto simp: Let_def typ_init_def split: if_splits dest!: bind_sum_Inr IH)
    with Inr show ?thesis by simp
  qed
qed

text \<open>
  An unexposed type that is its own canonical type: the function calls itself with
  the argument it was called with, and does not return.
\<close>

lemma typeFromClangType_self_canonical:
  assumes "Kind api t = TK_Unexposed" and "CanonicalType api t = t"
  shows "typeFromClangType api trim t = None"
proof -
  have "typeFromClangType api trim t = Some y \<Longrightarrow>
      \<not> (Kind api t = TK_Unexposed \<and> CanonicalType api t = t)" for y
  proof (induction rule: typeFromClangType_induct)
    case (step f api trim t y)
    show ?case
    proof
      assume a: "Kind api t = TK_Unexposed \<and> CanonicalType api t = t"
      with step(2) obtain r where "f api trim t = Some r"
        by (auto simp: Let_def Option.bind_eq_Some_conv)
      from step(1) [OF this] a show False by simp
    qed
  qed
  with assms show ?thesis by (cases "typeFromClangType api trim t") auto
qed

subsection \<open>The example translation unit\<close>

lemma ex_resolve_int: "typeFromClangType ex_api trim 0 = Some (Inr ex_int)"
  by (subst typeFromClangType.simps) (simp add: ex_api_def ex_Kind_def ex_TypeSpelling_def ex_int_def)

lemma ex_resolve_enum:
  "typeFromClangType ex_api TrimLanguagePrefix 5 =
     Some (Inr ((typ_init ''enum CXCursorKind'')
       \<lparr>GoName := ''CursorKind'', IsEnumLiteral := True, IsPrimitive := True\<rparr>))"
  by (subst typeFromClangType.simps)
     (simp add: ex_api_def ex_Kind_def ex_TypeSpelling_def TrimLanguagePrefix_def
        TrimPrefix_def HasPrefix_def)

subsection \<open>The integer width table\<close>

text \<open>
  C3, as stated, fails on the code: the switch has no case for the kinds of
  \<open>signed char\<close> and \<open>unsigned char\<close>, \<open>TK_SChar\<close> and \<open>TK_UChar\<close>. Such a type is not
  mapped to an 8-bit type; it takes the \<open>default\<close> branch and resolution fails.
\<close>

theorem signed_char_unhandled_counterexample:
  "Kind ex_api 19 = TK_SChar \<and>
   typeFromClangType ex_api TrimLanguagePrefix 19 =
     Some (Inl (UnhandledTypeKind ''signed char'' TK_SChar)) \<and>
   Kind ex_api 20 = TK_UChar \<and>
   typeFromClangType ex_api TrimLanguagePrefix 20 =
     Some (Inl (UnhandledTypeKind ''unsigned char'' TK_UChar))"
proof -
  have k: "Kind ex_api 19 = TK_SChar" "Kind ex_api 20 = TK_UChar"
    "TypeSpelling ex_api 19 = ''signed char''" "TypeSpelling ex_api 20 = ''unsigned char''"
    by (simp_all add: ex_api_def ex_Kind_def ex_TypeSpelling_def)
  have "\<not> handled (Kind ex_api 19)" "\<not> handled (Kind ex_api 20)"
    unfolding k by (simp_all add: handled_def)
  from this [THEN typeFromClangType_unhandled, of TrimLanguagePrefix] k
  show ?thesis by simp
qed

text \<open>
  C3, amended. Each of the ten integer kinds that the switch names resolves per the
  fixed table, signedness kept: plain char where it is signed (\<open>TK_Char_S\<close>) to \<open>int8\<close>,
  plain char where it is unsigned (\<open>TK_Char_U\<close>) to \<open>uint8\<close>, short and int to \<open>int16\<close>,
  unsigned short and unsigned int to \<open>uint16\<close>, long to \<open>int32\<close>, unsigned long to
  \<open>uint32\<close>, long long to \<open>int64\<close>, unsigned long long to \<open>uint64\<close>. Native int is 16
  bits wide in the target, not 32. The kinds \<open>TK_SChar\<close> and \<open>TK_UChar\<close> of
  \<open>signed char\<close> and \<open>unsigned char\<close> are not in the table: they fail with
  \<open>UnhandledTypeKind\<close>, carrying the spelling and the kind.
\<close>

theorem typeFromClangType_integer_widths:
  "(Kind api t = TK_Char_S \<longrightarrow> typeFromClangType api trim t =
      Some (Inr ((typ_init (TypeSpelling api t))\<lparr>CGoName := CSChar, GoName := GoInt8\<rparr>))) \<and>
   (Kind api t = TK_Char_U \<longrightarrow> typeFromClangType api trim t =
      Some (Inr ((typ_init (TypeSpelling api t))\<lparr>CGoName := CUChar, GoName := GoUInt8\<rparr>))) \<and>
   (Kind api t = TK_Short \<longrightarrow> typeFromClangType api trim t =
      Some (Inr ((typ_init (TypeSpelling api t))\<lparr>CGoName := CShort, GoName := GoInt16\<rparr>))) \<and>
   (Kind api t = TK_Int \<longrightarrow> typeFromClangType api trim t =
      Some (Inr ((typ_init (TypeSpelling api t))\<lparr>CGoName := CInt, GoName := GoInt16\<rparr>))) \<and>
   (Kind api t = TK_UShort \<longrightarrow> typeFromClangType api trim t =
      Some (Inr ((typ_init (TypeSpelling api t))\<lparr>CGoName := CUShort, GoName := GoUInt16\<rparr>))) \<and>
   (Kind api t = TK_UInt \<longrightarrow> typeFromClangType api trim t =
      Some (Inr ((typ_init (TypeSpelling api t))\<lparr>CGoName := CUInt, GoName := GoUInt16\<rparr>))) \<and>
   (Kind api t = TK_Long \<longrightarrow> typeFromClangType api trim t =
      Some (Inr ((typ_init (TypeSpelling api t))\<lparr>CGoName := CLongInt, GoName := GoInt32\<rparr>))) \<and>
   (Kind api t = TK_ULong \<longrightarrow> typeFromClangType api trim t =
      Some (Inr ((typ_init (TypeSpelling api t))\<lparr>CGoName := CULongInt, GoName := GoUInt32\<rparr>))) \<and>
   (Kind api t = TK_LongLong \<longrightarrow> typeFromClangType api trim t =
      Some (Inr ((typ_init (TypeSpelling api t))\<lparr>CGoName := CLongLong, GoName := GoInt64\<rparr>))) \<and>
   (Kind api t = TK_ULongLong \<longrightarrow> typeFromClangType api trim t =
      Some (Inr ((typ_init (TypeSpelling api t))\<lparr>CGoName := CULongLong, GoName := GoUInt64\<rparr>))) \<and>
   (Kind api t = TK_SChar \<longrightarrow> typeFromClangType api trim t =
      Some (Inl (UnhandledTypeKind (TypeSpelling api t) TK_SChar))) \<and>
   (Kind api t = TK_UChar \<longrightarrow> typeFromClangType api trim t =
      Some (Inl (UnhandledTypeKind (TypeSpelling api t) TK_UChar)))"
  by (cases "Kind api t") (simp_all add: typeFromClangType.simps [of api trim t])

theorem typeFromClangType_integer_widths_witness:
  "(Kind ex_api 10 = TK_Char_S \<and>
      map_option (map_sum id GoName) (typeFromClangType ex_api TrimLanguagePrefix 10) = Some (Inr ''int8'')) \<and>
   (Kind ex_api 11 = TK_Char_U \<and>
      map_option (map_sum id GoName) (typeFromClangType ex_api TrimLanguagePrefix 11) = Some (Inr ''uint8'')) \<and>
   (Kind ex_api 12 = TK_Short \<and>
      map_option (map_sum id GoName) (typeFromClangType ex_api TrimLanguagePrefix 12) = Some (Inr ''int16'')) \<and>
   (Kind ex_api 0 = TK_Int \<and>
      map_option (map_sum id GoName) (typeFromClangType ex_api TrimLanguagePrefix 0) = Some (Inr ''int16'')) \<and>
   (Kind ex_api 13 = TK_UShort \<and>
      map_option (map_sum id GoName) (typeFromClangType ex_api TrimLanguagePrefix 13) = Some (Inr ''uint16'')) \<and>
   (Kind ex_api 14 = TK_UInt \<and>
      map_option (map_sum id GoName) (typeFromClangType ex_api TrimLanguagePrefix 14) = Some (Inr ''uint16'')) \<and>
   (Kind ex_api 15 = TK_Long \<and>
      map_option (map_sum id GoName) (typeFromClangType ex_api TrimLanguagePrefix 15) = Some (Inr ''int32'')) \<and>
   (Kind ex_api 16 = TK_ULong \<and>
      map_option (map_sum id GoName) (typeFromClangType ex_api TrimLanguagePrefix 16) = Some (Inr ''uint32'')) \<and>
   (Kind ex_api 17 = TK_LongLong \<and>
      map_option (map_sum id GoName) (typeFromClangType ex_api TrimLanguagePrefix 17) = Some (Inr ''int64'')) \<and>
   (Kind ex_api 18 = TK_ULongLong \<and>
      map_option (map_sum id GoName) (typeFromClangType ex_api TrimLanguagePrefix 18) = Some (Inr ''uint64'')) \<and>
   (Kind ex_api 19 = TK_SChar \<and>
      typeFromClangType ex_api TrimLanguagePrefix 19 =
        Some (Inl (UnhandledTypeKind (TypeSpelling ex_api 19) TK_SChar))) \<and>
   (Kind ex_api 20 = TK_UChar \<and>
      typeFromClangType ex_api TrimLanguagePrefix 20 =
        Some (Inl (UnhandledTypeKind (TypeSpelling ex_api 20) TK_UChar)))"
  using typeFromClangType_integer_widths [of ex_api 10 TrimLanguagePrefix]
    typeFromClangType_integer_widths [of ex_api 11 TrimLanguagePrefix]
    typeFromClangType_integer_widths [of ex_api 12 TrimLanguagePrefix]
    typeFromClangType_integer_widths [of ex_api 0 TrimLanguagePrefix]
    typeFromClangType_integer_widths [of ex_api 13 TrimLanguagePrefix]
    typeFromClangType_integer_widths [of ex_api 14 TrimLanguagePrefix]
    typeFromClangType_integer_widths [of ex_api 15 TrimLanguagePrefix]
    typeFromClangType_integer_widths [of ex_api 16 TrimLanguagePrefix]
    typeFromClangType_integer_widths [of ex_api 17 TrimLanguagePrefix]
    typeFromClangType_integer_widths [of ex_api 18 TrimLanguagePrefix]
    typeFromClangType_integer_widths [of ex_api 19 TrimLanguagePrefix]
    typeFromClangType_integer_widths [of ex_api 20 TrimLanguagePrefix]
  by (simp add: ex_api_def ex_Kind_def)

subsection \<open>Pointer depth\<close>

text \<open>
  C6. Pointer depth is additive across nested unwrapping. Where a type resolves to a
  descriptor \<open>T\<close>: a pointer to it resolves with depth \<open>PointerLevel T + 1\<close>, a
  fixed-size array of it with depth \<open>PointerLevel T\<close>, a pointer to a pointer to it
  with depth \<open>PointerLevel T + 2\<close>; and the depth of a resolved type is never negative.
\<close>

theorem PointerLevel_additive:
  "(Kind api p = TK_Pointer \<and>
      typeFromClangType api trim (PointeeType api p) = Some (Inr T) \<longrightarrow>
      (\<exists>P. typeFromClangType api trim p = Some (Inr P) \<and>
           PointerLevel P = PointerLevel T + 1)) \<and>
   (Kind api a = TK_ConstantArray \<and>
      typeFromClangType api trim (ArrayElementType api a) = Some (Inr T) \<longrightarrow>
      (\<exists>A. typeFromClangType api trim a = Some (Inr A) \<and>
           PointerLevel A = PointerLevel T)) \<and>
   (Kind api pp = TK_Pointer \<and> Kind api (PointeeType api pp) = TK_Pointer \<and>
      typeFromClangType api trim (PointeeType api (PointeeType api pp)) = Some (Inr T) \<longrightarrow>
      (\<exists>PP. typeFromClangType api trim pp = Some (Inr PP) \<and>
           PointerLevel PP = PointerLevel T + 2)) \<and>
   (typeFromClangType api trim t = Some (Inr T) \<longrightarrow> 0 \<le> PointerLevel T)"
proof (intro conjI impI)
  assume "Kind api p = TK_Pointer \<and>
    typeFromClangType api trim (PointeeType api p) = Some (Inr T)"
  then show "\<exists>P. typeFromClangType api trim p = Some (Inr P) \<and>
      PointerLevel P = PointerLevel T + 1"
    by (simp add: typeFromClangType_pointer typ_init_def)
next
  assume "Kind api a = TK_ConstantArray \<and>
    typeFromClangType api trim (ArrayElementType api a) = Some (Inr T)"
  then show "\<exists>A. typeFromClangType api trim a = Some (Inr A) \<and>
      PointerLevel A = PointerLevel T"
    by (simp add: typeFromClangType_array typ_init_def)
next
  assume a: "Kind api pp = TK_Pointer \<and> Kind api (PointeeType api pp) = TK_Pointer \<and>
    typeFromClangType api trim (PointeeType api (PointeeType api pp)) = Some (Inr T)"
  then obtain P where P: "typeFromClangType api trim (PointeeType api pp) = Some (Inr P)"
    and lP: "PointerLevel P = 1 + PointerLevel T"
    by (simp add: typeFromClangType_pointer typ_init_def)
  from a P have "\<exists>PP. typeFromClangType api trim pp = Some (Inr PP) \<and>
      PointerLevel PP = 1 + PointerLevel P"
    by (simp add: typeFromClangType_pointer typ_init_def)
  with lP show "\<exists>PP. typeFromClangType api trim pp = Some (Inr PP) \<and>
      PointerLevel PP = PointerLevel T + 2"
    by auto
next
  assume "typeFromClangType api trim t = Some (Inr T)"
  from typeFromClangType_PointerLevel_nonneg [OF this]
  show "0 \<le> PointerLevel T" by simp
qed

theorem PointerLevel_additive_witness:
  "Kind ex_api 1 = TK_Pointer \<and> PointeeType ex_api 1 = 0 \<and>
   Kind ex_api 3 = TK_ConstantArray \<and> ArrayElementType ex_api 3 = 0 \<and>
   Kind ex_api 2 = TK_Pointer \<and> PointeeType ex_api 2 = 1 \<and>
   typeFromClangType ex_api TrimLanguagePrefix 0 = Some (Inr ex_int) \<and>
   PointerLevel ex_int = 0 \<and>
   map_option (map_sum id PointerLevel) (typeFromClangType ex_api TrimLanguagePrefix 1)
     = Some (Inr 1) \<and>
   map_option (map_sum id PointerLevel) (typeFromClangType ex_api TrimLanguagePrefix 3)
     = Some (Inr 0) \<and>
   map_option (map_sum id PointerLevel) (typeFromClangType ex_api TrimLanguagePrefix 2)
     = Some (Inr 2)"
  using PointerLevel_additive [of ex_api 1 TrimLanguagePrefix ex_int 3 2 0]
    ex_resolve_int [of TrimLanguagePrefix]
  by (auto simp: ex_api_def ex_Kind_def ex_int_def typ_init_def)

subsection \<open>Unexposed types\<close>

text \<open>
  C7. The claim is that an unexposed type takes the descriptor of its canonical type
  in every classification field, the enum-literal, array, array-size and
  function-pointer fields included. The case copies \<open>CGoName\<close>, \<open>GoName\<close>,
  \<open>PointerLevel\<close> and \<open>IsPrimitive\<close> only (\<open>typeFromClangType_unexposed\<close>). Evaluated
  on the enum \<open>CXCursorKind\<close> reported as unexposed, the case the comment in the
  source names: the canonical type resolves with \<open>IsEnumLiteral\<close> set, the unexposed
  type with \<open>IsEnumLiteral\<close> not set.
\<close>

theorem unexposed_enum_loses_IsEnumLiteral:
  "Kind ex_api 4 = TK_Unexposed \<and> CanonicalType ex_api 4 = 5 \<and> Kind ex_api 5 = TK_Enum \<and>
   typeFromClangType ex_api TrimLanguagePrefix 5 =
     Some (Inr ((typ_init ''enum CXCursorKind'')
       \<lparr>GoName := ''CursorKind'', IsEnumLiteral := True, IsPrimitive := True\<rparr>)) \<and>
   typeFromClangType ex_api TrimLanguagePrefix 4 =
     Some (Inr ((typ_init ''enum CXCursorKind'')
       \<lparr>GoName := ''CursorKind'', IsEnumLiteral := False, IsPrimitive := True\<rparr>))"
proof -
  have k: "Kind ex_api 4 = TK_Unexposed" and c: "CanonicalType ex_api 4 = 5"
    and k5: "Kind ex_api 5 = TK_Enum"
    by (simp_all add: ex_api_def ex_Kind_def)
  have "typeFromClangType ex_api TrimLanguagePrefix (CanonicalType ex_api 4) =
     Some (Inr ((typ_init ''enum CXCursorKind'')
       \<lparr>GoName := ''CursorKind'', IsEnumLiteral := True, IsPrimitive := True\<rparr>))"
    unfolding c by (rule ex_resolve_enum)
  from typeFromClangType_unexposed [OF k this]
  have "typeFromClangType ex_api TrimLanguagePrefix 4 =
     Some (Inr ((typ_init ''enum CXCursorKind'')
       \<lparr>GoName := ''CursorKind'', IsEnumLiteral := False, IsPrimitive := True\<rparr>))"
    by (simp add: ex_api_def ex_TypeSpelling_def typ_init_def)
  with k c k5 ex_resolve_enum show ?thesis by simp
qed

subsection \<open>Failure and empty names\<close>

text \<open>
  C9, as stated, fails on the code: an enum without a name resolves successfully with
  an empty target name, and an unexposed type that is its own canonical type does
  not make the function return at all.
\<close>

theorem typeFromClangType_empty_GoName_counterexample:
  "map_option (map_sum id GoName) (typeFromClangType ex_api TrimLanguagePrefix 6)
     = Some (Inr []) \<and>
   typeFromClangType ex_api TrimLanguagePrefix 9 = None"
proof -
  have "typeFromClangType ex_api TrimLanguagePrefix 6 =
     Some (Inr ((typ_init ''enum (anonymous)'')
       \<lparr>GoName := [], IsEnumLiteral := True, IsPrimitive := True\<rparr>))"
    by (subst typeFromClangType.simps)
       (simp add: ex_api_def ex_Kind_def ex_TypeSpelling_def TrimLanguagePrefix_def
          TrimPrefix_def HasPrefix_def)
  moreover have "typeFromClangType ex_api TrimLanguagePrefix 9 = None"
    by (rule typeFromClangType_self_canonical) (simp_all add: ex_api_def ex_Kind_def)
  ultimately show ?thesis by simp
qed

text \<open>
  C9, amended. Follow the element type of an array, the pointee of a pointer and the
  canonical type of an unexposed type. For every type from which \<open>n\<close> such steps reach
  a type \<open>e\<close> of another kind, resolution returns. If the kind of \<open>e\<close> is outside the
  handled set, the result is the error \<open>UnhandledTypeKind\<close> with the spelling and the
  kind of \<open>e\<close>. Otherwise it is a descriptor, and its target name is empty only where
  it is a declaration name that is empty after \<open>TrimLanguagePrefix\<close>.
\<close>

theorem typeFromClangType_returns:
  assumes "\<not> wraps (Kind api ((inner api ^^ n) t))"
  shows "(\<not> handled (Kind api ((inner api ^^ n) t)) \<longrightarrow>
            typeFromClangType api trim t =
              Some (Inl (UnhandledTypeKind (TypeSpelling api ((inner api ^^ n) t))
                                           (Kind api ((inner api ^^ n) t))))) \<and>
         (handled (Kind api ((inner api ^^ n) t)) \<longrightarrow>
            (\<exists>ty. typeFromClangType api trim t = Some (Inr ty) \<and>
               (GoName ty = [] \<longrightarrow>
                  trimmed_name api trim ((inner api ^^ n) t) = Some [])))"
  using assms
proof (induction n arbitrary: t)
  case 0
  then show ?case
    using typeFromClangType_unhandled [of api t trim] typeFromClangType_leaf [of api t trim]
    by auto
next
  case (Suc n)
  have e: "(inner api ^^ Suc n) t = (inner api ^^ n) (inner api t)"
    by (simp add: funpow_swap1)
  from Suc.prems [unfolded e]
  have nw: "\<not> wraps (Kind api ((inner api ^^ n) (inner api t)))" .
  note IH = Suc.IH [OF nw]
  show ?case
  proof (cases "wraps (Kind api t)")
    case False
    then have "inner api t = t"
      by (cases "Kind api t") (simp_all add: inner_def wraps_def)
    with IH show ?thesis unfolding e by simp
  next
    case True
    show ?thesis
    proof (cases "handled (Kind api ((inner api ^^ n) (inner api t)))")
      case False
      with IH have "typeFromClangType api trim (inner api t) =
          Some (Inl (UnhandledTypeKind (TypeSpelling api ((inner api ^^ n) (inner api t)))
                                       (Kind api ((inner api ^^ n) (inner api t)))))"
        by simp
      from typeFromClangType_wrap [OF True this] False show ?thesis
        unfolding e by simp
    next
      case h: True
      with IH obtain sub where
        s: "typeFromClangType api trim (inner api t) = Some (Inr sub)" and
        n: "GoName sub = [] \<longrightarrow> trimmed_name api trim ((inner api ^^ n) (inner api t)) = Some []"
        by auto
      from typeFromClangType_wrap [OF True s] n h show ?thesis
        unfolding e by auto
    qed
  qed
qed

theorem typeFromClangType_returns_witness:
  "\<not> wraps (Kind ex_api ((inner ex_api ^^ 1) 8)) \<and>
   \<not> handled (Kind ex_api ((inner ex_api ^^ 1) 8)) \<and>
   typeFromClangType ex_api TrimLanguagePrefix 8 = Some (Inl (UnhandledTypeKind ''vec4'' TK_Vector)) \<and>
   \<not> wraps (Kind ex_api ((inner ex_api ^^ 2) 2)) \<and>
   handled (Kind ex_api ((inner ex_api ^^ 2) 2)) \<and>
   (case typeFromClangType ex_api TrimLanguagePrefix 2 of
      Some (Inr ty) \<Rightarrow> GoName ty \<noteq> [] \<or> trimmed_name ex_api TrimLanguagePrefix 0 = Some []
    | _ \<Rightarrow> False)"
proof -
  have i8: "(inner ex_api ^^ 1) 8 = 7" and i2: "(inner ex_api ^^ 2) 2 = 0"
    by (simp_all add: numeral_2_eq_2 inner_def ex_api_def ex_Kind_def)
  have k: "Kind ex_api 7 = TK_Vector" "Kind ex_api 0 = TK_Int" "TypeSpelling ex_api 7 = ''vec4''"
    by (simp_all add: ex_api_def ex_Kind_def ex_TypeSpelling_def)
  have w: "\<not> wraps TK_Vector" "\<not> wraps TK_Int" "\<not> handled TK_Vector" "handled TK_Int"
    by (simp_all add: wraps_def handled_def)
  from typeFromClangType_returns [of ex_api 1 8 TrimLanguagePrefix]
    typeFromClangType_returns [of ex_api 2 2 TrimLanguagePrefix]
  show ?thesis unfolding i8 i2 k using w by auto
qed

section \<open>Properties of the naming heuristic\<close>

lemma HasPrefix_prefix: "HasPrefix s p = prefix p s"
  unfolding HasPrefix_def prefix_def
  by (metis append_eq_conv_conj append_take_drop_id length_append le_add1)

lemma HasSuffix_suffix: "HasSuffix s p = suffix p s"
  unfolding HasSuffix_def suffix_def
  by (metis append_eq_conv_conj append_take_drop_id length_append le_add2 length_drop
      add_diff_cancel_right')

lemma TrimPrefix_length: "p \<noteq> [] \<Longrightarrow> (length (TrimPrefix s p) \<noteq> length s) = prefix p s"
  by (auto simp: TrimPrefix_def HasPrefix_prefix prefix_def)

lemma TrimPrefix_prefix: "prefix p s \<Longrightarrow> TrimPrefix s p = drop (length p) s"
  by (simp add: TrimPrefix_def HasPrefix_prefix)

lemma TrimSuffix_length: "p \<noteq> [] \<Longrightarrow> (length (TrimSuffix s p) \<noteq> length s) = suffix p s"
  by (auto simp: TrimSuffix_def HasSuffix_suffix suffix_def)

lemma TrimSuffix_suffix: "suffix p s \<Longrightarrow> TrimSuffix s p = take (length s - length p) s"
  by (simp add: TrimSuffix_def HasSuffix_suffix)

text \<open>
  What \<open>ArrayNameFromLength\<close> computes, rule by rule, for every name: the panic
  sits in the third rule, where the name is \<open>Num\<close> and nothing follows.
\<close>

lemma ArrayNameFromLength_rules:
  "ArrayNameFromLength s =
    (if prefix ''num_'' s then Inr (drop 4 s)
     else if prefix ''num'' s then Inr (drop 3 s)
     else if prefix ''Num'' s then
       (case drop 3 s of
          [] \<Rightarrow> Inl (IndexOutOfRange 0 0)
        | c # _ \<Rightarrow> if IsUpper (of_char c) then Inr (drop 3 s) else size_rule s)
     else size_rule s)"
proof -
  have l4: "length ''num_'' = 4" and l3: "length ''num'' = 3" and l3': "length ''Num'' = 3"
    and l5: "length ''_size'' = 5"
    by simp_all
  have sz: "(let pan = TrimSuffix s ''_size'' in
             if length pan \<noteq> length s then Inr pan else Inr []) = size_rule s"
    unfolding Let_def size_rule_def TrimSuffix_length [of "''_size''" s, simplified]
    using TrimSuffix_suffix [of "''_size''" s] l5 by presburger
  have p1: "(length (TrimPrefix s ''num_'') \<noteq> length s) = prefix ''num_'' s"
    by (rule TrimPrefix_length) simp
  have p2: "(length (TrimPrefix s ''num'') \<noteq> length s) = prefix ''num'' s"
    by (rule TrimPrefix_length) simp
  have p3: "(length (TrimPrefix s ''Num'') \<noteq> length s) = prefix ''Num'' s"
    by (rule TrimPrefix_length) simp
  have d1: "prefix ''num_'' s \<Longrightarrow> TrimPrefix s ''num_'' = drop 4 s"
    using TrimPrefix_prefix [of "''num_''" s] l4 by presburger
  have d2: "prefix ''num'' s \<Longrightarrow> TrimPrefix s ''num'' = drop 3 s"
    using TrimPrefix_prefix [of "''num''" s] l3 by presburger
  have d3: "prefix ''Num'' s \<Longrightarrow> TrimPrefix s ''Num'' = drop 3 s"
    using TrimPrefix_prefix [of "''Num''" s] l3' by presburger
  show ?thesis
    unfolding ArrayNameFromLength_def Let_def p1 p2 p3 sz [unfolded Let_def]
    by (cases "drop 3 s") (simp_all add: d1 d2 d3)
qed

lemma Num_only: "prefix ''Num'' s \<Longrightarrow> drop 3 s = [] \<Longrightarrow> s = ''Num''"
  by (auto simp: prefix_def)

text \<open>
  On every name but \<open>Num\<close> the function returns what the worded rules give, the
  empty string standing for "no match".
\<close>

lemma ArrayNameFromLength_deriveArrayName:
  "s \<noteq> ''Num'' \<Longrightarrow>
   ArrayNameFromLength s = Inr (case deriveArrayName s of None \<Rightarrow> [] | Some r \<Rightarrow> r)"
  unfolding ArrayNameFromLength_rules deriveArrayName_def size_rule_def
  by (auto dest: Num_only split: list.splits)

text \<open>
  C8. The rules are tried in order and the first match wins: the six names of the
  claim evaluate as it says. The claim's rules give "no match" for the name \<open>Num\<close>
  (the prefix \<open>Num\<close> is there, nothing uppercase follows, the suffix is not there);
  the code does not return the empty string on it.
\<close>

theorem ArrayNameFromLength_examples:
  "ArrayNameFromLength ''num_elements'' = Inr ''elements'' \<and>
   ArrayNameFromLength ''numItems'' = Inr ''Items'' \<and>
   ArrayNameFromLength ''NumFiles'' = Inr ''Files'' \<and>
   ArrayNameFromLength ''Numx'' = Inr [] \<and>
   ArrayNameFromLength ''buffer_size'' = Inr ''buffer'' \<and>
   ArrayNameFromLength ''count'' = Inr [] \<and>
   deriveArrayName ''Num'' = None \<and>
   ArrayNameFromLength ''Num'' \<noteq> Inr []"
  by (simp add: ArrayNameFromLength_def deriveArrayName_def TrimPrefix_def HasPrefix_def
      TrimSuffix_def HasSuffix_def IsUpper_def suffix_to_prefix)

text \<open>
  C10. On the name \<open>Num\<close> the rules for \<open>num_\<close> and \<open>num\<close> leave the name as it is
  (the comparison is case-sensitive), the rule for \<open>Num\<close> strips it to the empty
  string, and the uppercase check indexes the first byte of that empty string:
  the function panics with index 0 out of range for length 0.
\<close>

theorem ArrayNameFromLength_Num_panics:
  "TrimPrefix ''Num'' ''num_'' = ''Num'' \<and>
   TrimPrefix ''Num'' ''num'' = ''Num'' \<and>
   TrimPrefix ''Num'' ''Num'' = [] \<and>
   ArrayNameFromLength ''Num'' = Inl (IndexOutOfRange 0 0)"
  by (simp add: ArrayNameFromLength_def TrimPrefix_def HasPrefix_def)

section \<open>The shape of a generated function\<close>

text \<open>
  The two loops and the two blocks of \<open>generateASTFunction\<close>, expressed with the
  vocabulary above: what each of them appends to the parameter list, the result
  list, the body, the return statement and the arguments of the native call.
\<close>

lemma addParameters_Suc:
  "addParameters recv (Suc i) ps st =
     st\<lparr>g_Params := g_Params st @ map inField (filter (\<lambda>q. \<not> isOut q) ps),
        g_Results := g_Results st @ map outResult (filter isOut ps),
        g_Body := g_Body st @ concat (map outStmts (filter isOut ps)),
        g_retur := g_retur st @ map outValue (filter isOut ps),
        hasReturnArguments := hasReturnArguments st \<or> filter isOut ps \<noteq> []\<rparr>"
proof (induction ps arbitrary: st i)
  case Nil
  show ?case by simp
next
  case (Cons p ps)
  show ?case
    by (simp add: Cons.IH Let_def isOut_def inField_def outResult_def outStmts_def
        outDecl_def outDispose_def outValue_def addStatement_def doCall_def doCType_def
        accessMember_def)
qed

lemma addArguments_eq:
  "addArguments ps st =
     st\<lparr>g_Body := g_Body st @ concat (map strConv (filter isCString ps)),
        g_args := g_args st @ map argExpr ps,
        goToCTypeConversions := goToCTypeConversions st \<or> filter isCString ps \<noteq> []\<rparr>"
proof (induction ps arbitrary: st)
  case Nil
  show ?case by simp
next
  case (Cons p ps)
  show ?case
    by (simp add: Cons.IH Let_def isOut_def isCString_def strConv_def strAlloc_def
        strFree_def argExpr_def argInner_def addStatement_def doCall_def doCCast_def
        accessMember_def)
qed


lemma addParameters_0:
  "addParameters recv 0 ps st =
     st\<lparr>g_Params := g_Params st @
          map inField (filter (\<lambda>q. \<not> isOut q) (if recv \<noteq> [] then drop 1 ps else ps)),
        g_Results := g_Results st @
          map outResult (filter isOut (if recv \<noteq> [] then drop 1 ps else ps)),
        g_Body := g_Body st @
          concat (map outStmts (filter isOut (if recv \<noteq> [] then drop 1 ps else ps))),
        g_retur := g_retur st @
          map outValue (filter isOut (if recv \<noteq> [] then drop 1 ps else ps)),
        hasReturnArguments := hasReturnArguments st \<or>
          filter isOut (if recv \<noteq> [] then drop 1 ps else ps) \<noteq> []\<rparr>"
proof (cases ps)
  case Nil
  then show ?thesis by simp
next
  case (Cons p ps')
  show ?thesis
  proof (cases "recv \<noteq> []")
    case True
    with Cons show ?thesis by (simp add: addParameters_Suc)
  next
    case False
    with Cons show ?thesis
      by (simp add: addParameters_Suc Let_def isOut_def inField_def outResult_def
          outStmts_def outDecl_def outDispose_def outValue_def addStatement_def doCall_def
          doCType_def accessMember_def)
  qed
qed

lemma renamed_Nil [simp]: "(renamed f = []) = (f_Parameters f = [])"
  by (simp add: renamed_def split: list.splits)

lemma no_Parameters: "f_Parameters f = [] \<Longrightarrow> renamed f = []"
  by simp

lemma subexprs_self [simp]: "e \<in> set (subexprs e)"
  by (cases e) simp_all

lemma length_renamed [simp]: "length (renamed f) = length (f_Parameters f)"
  by (simp add: renamed_def split: list.splits)

lemma processed_Nil: "f_Parameters f = [] \<Longrightarrow> processed f = []"
  by (simp add: processed_def renamed_def)

lemma withParameters_Params:
  "g_Params (withParameters f) = map inField (filter (\<lambda>q. \<not> isOut q) (processed f))"
  by (cases "f_Parameters f = []")
     (simp_all add: withParameters_def Let_def addParameters_0 addArguments_eq addEmptyLine_def
      addStatement_def gen_init_def processed_def no_Parameters)

lemma withParameters_Results:
  "g_Results (withParameters f) = map outResult (promoted f)"
  by (cases "f_Parameters f = []")
     (simp_all add: withParameters_def Let_def addParameters_0 addArguments_eq addEmptyLine_def
      addStatement_def gen_init_def processed_def promoted_def no_Parameters)

lemma withParameters_retur:
  "g_retur (withParameters f) = map outValue (promoted f)"
  by (cases "f_Parameters f = []")
     (simp_all add: withParameters_def Let_def addParameters_0 addArguments_eq addEmptyLine_def
      addStatement_def gen_init_def processed_def promoted_def no_Parameters)

lemma withParameters_args:
  "g_args (withParameters f) = map argExpr (renamed f)"
  by (cases "f_Parameters f = []")
     (simp_all add: withParameters_def Let_def addParameters_0 addArguments_eq addEmptyLine_def
      addStatement_def gen_init_def no_Parameters)

lemma withParameters_hasReturnArguments:
  "hasReturnArguments (withParameters f) = (promoted f \<noteq> [])"
  by (cases "f_Parameters f = []")
     (simp_all add: withParameters_def Let_def addParameters_0 addArguments_eq addEmptyLine_def
      addStatement_def gen_init_def processed_def promoted_def no_Parameters)

lemma withParameters_Body:
  "g_Body (withParameters f) =
     concat (map outStmts (promoted f)) @ (if promoted f = [] then [] else [emptyLine]) @
     concat (map strConv (filter isCString (renamed f))) @
     (if filter isCString (renamed f) = [] then [] else [emptyLine])"
  by (cases "f_Parameters f = []")
     (simp_all add: withParameters_def Let_def addParameters_0 addArguments_eq addEmptyLine_def
      addStatement_def gen_init_def processed_def promoted_def no_Parameters)

lemma nativeCall_eq:
  "nativeCall f = CallExpr (SelectorExpr (Ident ''C'') (f_CName f)) (map argExpr (renamed f))"
  by (simp add: nativeCall_def withParameters_args doCCast_def doCall_def accessMember_def)

lemma addReturn_Results:
  "g_Results (addReturn rt call st) =
     g_Results st @ (if t_Name rt = ''void'' then [] else [primaryResult rt])"
  by (simp add: addReturn_def Let_def addStatement_def addEmptyLine_def primaryResult_def)

lemma addReturn_call:
  "\<exists>s rest. g_Body (addReturn rt call st) = g_Body st @ s # rest \<and> occurs call s"
  by (simp add: addReturn_def Let_def addStatement_def addEmptyLine_def occurs_def doCCast_def
      doCall_def accessMember_def)

lemma addReturn_last:
  "t_Name rt \<noteq> ''void'' \<or> hasReturnArguments st \<Longrightarrow>
   \<exists>rest. last (g_Body (addReturn rt call st)) = ReturnStmt (g_retur st @ rest)"
  by (simp add: addReturn_def Let_def addStatement_def addEmptyLine_def)

lemma addReturn_temporary:
  assumes "hasReturnArguments st"
    and "t_Name rt \<notin> {''void'', ''string'', ''cxstring'', ''time.Time''}"
    and "\<not> (t_Name rt = ''bool'' \<and> t_Primitive rt \<noteq> [])"
  shows "g_Body (addReturn rt call st) =
     g_Body st @
     [AssignStmt [Ident ''o''] token_DEFINE
        [if t_Primitive rt = [] then CompositeLit (Ident (t_Name rt)) [call]
         else CallExpr (Ident (t_Name rt)) [call]],
      emptyLine,
      ReturnStmt (g_retur st @ [Ident ''o''])]"
  using assms
  by (simp add: addReturn_def Let_def addStatement_def addEmptyLine_def)


lemmas synth_defs =
  generateASTFunction_def nativeCall_def withParameters_def addReturn_def renamed_def
  gen_init_def addStatement_def addEmptyLine_def doCCast_def doCall_def doCType_def
  accessMember_def Let_def

lemmas ex_defs =
  ex_File_def ex_IsFileMultipleIncludeGuarded_def ex_UniqueID_def ex_recv_out_def
  ty_composite_def ty_primitive_def

lemma generateASTFunction_File:
  "generateASTFunction ex_File =
    \<lparr> Recv = Some [Field [''tu''] (Ident ''TranslationUnit'')],
      Name = ''File'',
      Params = Some [Field [''file_name''] (Ident ''string'')],
      Results = [Field [] (Ident ''File'')],
      Body =
        [AssignStmt [Ident ''c_file_name''] token_DEFINE
           [CallExpr (SelectorExpr (Ident ''C'') ''CString'') [Ident ''file_name'']],
         DeferStmt (CallExpr (SelectorExpr (Ident ''C'') ''free'')
           [CallExpr (SelectorExpr (Ident ''unsafe'') ''Pointer'') [Ident ''c_file_name'']]),
         emptyLine,
         ReturnStmt [CompositeLit (Ident ''File'')
           [CallExpr (SelectorExpr (Ident ''C'') ''clang_getFile'')
              [SelectorExpr (Ident ''tu'') ''c'', Ident ''c_file_name'']]]] \<rparr>"
  by (simp add: synth_defs ex_defs)

lemma generateASTFunction_IsFileMultipleIncludeGuarded:
  "generateASTFunction ex_IsFileMultipleIncludeGuarded =
    \<lparr> Recv = Some [Field [''tu''] (Ident ''TranslationUnit'')],
      Name = ''IsFileMultipleIncludeGuarded'',
      Params = Some [Field [''file''] (Ident ''File'')],
      Results = [Field [] (Ident ''bool'')],
      Body =
        [AssignStmt [Ident ''o''] token_DEFINE
           [CallExpr (SelectorExpr (Ident ''C'') ''clang_isFileMultipleIncludeGuarded'')
              [SelectorExpr (Ident ''tu'') ''c'', SelectorExpr (Ident ''file'') ''c'']],
         emptyLine,
         ReturnStmt [BinaryExpr (Ident ''o'') token_NEQ
           (CallExpr (SelectorExpr (Ident ''C'') ''uint'') [BasicLit token_INT ''0''])]] \<rparr>"
  by (simp add: synth_defs ex_defs)

lemma generateASTFunction_UniqueID:
  "generateASTFunction ex_UniqueID =
    \<lparr> Recv = Some [Field [''f''] (Ident ''File'')],
      Name = ''UniqueID'',
      Params = Some [],
      Results = [Field [] (Ident ''FileUniqueID''), Field [] (Ident ''int16'')],
      Body =
        [DeclStmt (GenDecl token_VAR [ValueSpec [''outID''] (Ident ''FileUniqueID'')]),
         emptyLine,
         AssignStmt [Ident ''o''] token_DEFINE
           [CallExpr (Ident ''int16'')
              [CallExpr (SelectorExpr (Ident ''C'') ''clang_getFileUniqueID'')
                 [SelectorExpr (Ident ''f'') ''c'',
                  UnaryExpr token_AND (SelectorExpr (Ident ''outID'') ''c'')]]],
         emptyLine,
         ReturnStmt [Ident ''outID'', Ident ''o'']] \<rparr>"
  by (simp add: synth_defs ex_defs)

lemma generateASTFunction_recv_out:
  "generateASTFunction ex_recv_out =
    \<lparr> Recv = Some [Field [''r''] (Ident ''Result'')],
      Name = ''Fill'',
      Params = Some [],
      Results = [],
      Body =
        [ExprStmt (CallExpr (SelectorExpr (Ident ''C'') ''clang_fill'')
           [UnaryExpr token_AND (SelectorExpr (Ident ''r'') ''c'')])] \<rparr>"
  by (simp add: synth_defs ex_defs)

lemma generateASTFunction_Results:
  "Results (generateASTFunction f) =
     map outResult (promoted f) @
     (if t_Name (f_ReturnType f) = ''void'' then [] else [primaryResult (f_ReturnType f)])"
  by (simp add: generateASTFunction_def Let_def addReturn_Results withParameters_Results)

lemma generateASTFunction_Params:
  "f_Parameters f \<noteq> [] \<Longrightarrow>
   Params (generateASTFunction f) =
     Some (map inField (filter (\<lambda>q. \<not> isOut q) (processed f)))"
proof -
  assume ne: "f_Parameters f \<noteq> []"
  have "g_Params (addReturn rt call st) = g_Params st" for rt call st
    by (simp add: addReturn_def Let_def addStatement_def addEmptyLine_def)
  with ne show ?thesis
    by (simp add: generateASTFunction_def Let_def withParameters_Params)
qed

lemma generateASTFunction_Body:
  "\<exists>s rest. Body (generateASTFunction f) = g_Body (withParameters f) @ s # rest \<and>
      occurs (nativeCall f) s"
  using addReturn_call [of "f_ReturnType f" "nativeCall f" "withParameters f"]
  by (simp add: generateASTFunction_def Let_def)

lemma generateASTFunction_prelude:
  "take (callPos f) (Body (generateASTFunction f)) = g_Body (withParameters f)"
  using generateASTFunction_Body [of f] by (auto simp: callPos_def)

lemma generateASTFunction_callPos:
  "callPos f < length (Body (generateASTFunction f)) \<and>
   occurs (nativeCall f) (Body (generateASTFunction f) ! callPos f)"
  using generateASTFunction_Body [of f] by (auto simp: callPos_def nth_append)

lemma generateASTFunction_return:
  "promoted f \<noteq> [] \<Longrightarrow>
   \<exists>rest. last (Body (generateASTFunction f)) = ReturnStmt (map outValue (promoted f) @ rest)"
  using addReturn_last [of "f_ReturnType f" "withParameters f" "nativeCall f"]
  by (simp add: generateASTFunction_def Let_def withParameters_hasReturnArguments
      withParameters_retur)

lemma processed_nth:
  "i < length (f_Parameters f) \<Longrightarrow> \<not> (i = 0 \<and> r_Name (f_Receiver f) \<noteq> []) \<Longrightarrow>
   renamed f ! i \<in> set (processed f)"
proof (cases "r_Name (f_Receiver f) \<noteq> []")
  case True
  assume i: "i < length (f_Parameters f)" and "\<not> (i = 0 \<and> r_Name (f_Receiver f) \<noteq> [])"
  with True obtain j where j: "i = Suc j" by (cases i) auto
  with i have "drop 1 (renamed f) ! j = renamed f ! i" and "j < length (drop 1 (renamed f))"
    by simp_all
  then have "renamed f ! i \<in> set (drop 1 (renamed f))"
    by (metis nth_mem)
  with True show ?thesis by (simp add: processed_def)
next
  case False
  assume "i < length (f_Parameters f)"
  with False show ?thesis by (simp add: processed_def)
qed

section \<open>Properties of the function synthesizer\<close>

subsection \<open>Boolean coercion\<close>

lemma generateFunction_ReturnType_Name:
  "t_Name (f_ReturnType (generateFunction tr rn up name cname comment member ty)) =
     (if (prefix ''has'' name \<or> prefix ''is'' name) \<and> t_Name ty = ''int32'' then ''bool''
      else t_Name ty)"
  by (simp add: generateFunction_def Let_def HasPrefix_prefix)

text \<open>
  C1. The claim is that the return type is overridden to boolean exactly when the
  name begins with \<open>has\<close> or \<open>is\<close> and the mapped return type is in the 16-bit integer
  family. \<open>generateFunction\<close> compares the type name with \<open>GoInt32\<close>
  (\<open>generateFunction_ReturnType_Name\<close>): for the name \<open>isValid\<close> the 16-bit types
  \<open>int16\<close> and \<open>uint16\<close>, which the type mapper gives for int and unsigned int, are
  left as they are, and \<open>int32\<close> is overridden. A 32-bit float is not coerced.
\<close>

theorem generateFunction_isValid:
  "t_Name (f_ReturnType (generateFunction tr rn up ''isValid'' cname comment member
      (ty_primitive ''int16'' [] ''int''))) = ''int16'' \<and>
   t_Name (f_ReturnType (generateFunction tr rn up ''isValid'' cname comment member
      (ty_primitive ''uint16'' [] ''unsigned int''))) = ''uint16'' \<and>
   t_Name (f_ReturnType (generateFunction tr rn up ''isValid'' cname comment member
      (ty_primitive ''int32'' [] ''long''))) = ''bool'' \<and>
   t_Name (f_ReturnType (generateFunction tr rn up ''isValid'' cname comment member
      (ty_primitive ''float32'' [] ''float''))) = ''float32''"
  by (simp add: generateFunction_def Let_def HasPrefix_def ty_primitive_def)

subsection \<open>Order of the returned values\<close>

text \<open>
  C2, as stated, fails on the code: with a primitive primary result and one
  out-parameter, the result list and the return statement have the out-parameter
  first and the primary result last.
\<close>

theorem primary_result_first_counterexample:
  "Results (generateASTFunction ex_UniqueID) =
     [Field [] (Ident ''FileUniqueID''), Field [] (Ident ''int16'')] \<and>
   last (Body (generateASTFunction ex_UniqueID)) = ReturnStmt [Ident ''outID'', Ident ''o'']"
  by (simp add: synth_defs ex_defs)

text \<open>
  C2, amended. Whenever a function has promoted out-parameters and a primary result
  of rules 7 and 8 (the return type is not void, string, cxstring or time.Time and not
  a bool with a marshal name), the result list and the return statement have the
  out-parameters first, in the order of the native declaration, and the primary
  result last; the primary result goes through the temporary \<open>o\<close>.
\<close>

theorem primary_result_last:
  assumes "promoted f \<noteq> []"
    and "t_Name (f_ReturnType f) \<notin> {''void'', ''string'', ''cxstring'', ''time.Time''}"
    and "\<not> (t_Name (f_ReturnType f) = ''bool'' \<and> t_Primitive (f_ReturnType f) \<noteq> [])"
  shows "Results (generateASTFunction f) =
           map outResult (promoted f) @ [Field [] (Ident (t_Name (f_ReturnType f)))] \<and>
         drop (callPos f) (Body (generateASTFunction f)) =
           [AssignStmt [Ident ''o''] token_DEFINE
              [if t_Primitive (f_ReturnType f) = []
               then CompositeLit (Ident (t_Name (f_ReturnType f))) [nativeCall f]
               else CallExpr (Ident (t_Name (f_ReturnType f))) [nativeCall f]],
            emptyLine,
            ReturnStmt (map outValue (promoted f) @ [Ident ''o''])]"
proof -
  from assms(1) have h: "hasReturnArguments (withParameters f)"
    by (simp add: withParameters_hasReturnArguments)
  from assms(2) have "Results (generateASTFunction f) =
      map outResult (promoted f) @ [Field [] (Ident (t_Name (f_ReturnType f)))]"
    by (simp add: generateASTFunction_Results primaryResult_def)
  moreover from addReturn_temporary [OF h assms(2) assms(3), of "nativeCall f"]
  have "drop (callPos f) (Body (generateASTFunction f)) =
      [AssignStmt [Ident ''o''] token_DEFINE
         [if t_Primitive (f_ReturnType f) = []
          then CompositeLit (Ident (t_Name (f_ReturnType f))) [nativeCall f]
          else CallExpr (Ident (t_Name (f_ReturnType f))) [nativeCall f]],
       emptyLine,
       ReturnStmt (map outValue (promoted f) @ [Ident ''o''])]"
    by (simp add: generateASTFunction_def Let_def callPos_def withParameters_retur)
  ultimately show ?thesis by simp
qed

theorem primary_result_last_witness:
  "promoted ex_UniqueID \<noteq> [] \<and>
   t_Name (f_ReturnType ex_UniqueID) \<notin> {''void'', ''string'', ''cxstring'', ''time.Time''} \<and>
   \<not> (t_Name (f_ReturnType ex_UniqueID) = ''bool'' \<and> t_Primitive (f_ReturnType ex_UniqueID) \<noteq> []) \<and>
   Results (generateASTFunction ex_UniqueID) =
     [Field [] (Ident ''FileUniqueID''), Field [] (Ident ''int16'')] \<and>
   drop (callPos ex_UniqueID) (Body (generateASTFunction ex_UniqueID)) =
     [AssignStmt [Ident ''o''] token_DEFINE
        [CallExpr (Ident ''int16'')
           [CallExpr (SelectorExpr (Ident ''C'') ''clang_getFileUniqueID'')
              [SelectorExpr (Ident ''f'') ''c'',
               UnaryExpr token_AND (SelectorExpr (Ident ''outID'') ''c'')]]],
      emptyLine,
      ReturnStmt [Ident ''outID'', Ident ''o'']]"
proof -
  have p: "promoted ex_UniqueID =
      [\<lparr> p_Name = ''outID'', p_CName = ''outID'',
         p_Type = (ty_composite ''FileUniqueID'' ''CXFileUniqueID *'')
                    \<lparr>t_PointerLevel := 1, t_IsReturnArgument := True\<rparr> \<rparr>]"
    by (simp add: promoted_def processed_def renamed_def isOut_def ex_defs)
  have r: "t_Name (f_ReturnType ex_UniqueID) = ''int16''"
    "t_Primitive (f_ReturnType ex_UniqueID) = ''int''"
    by (simp_all add: ex_defs)
  have c: "nativeCall ex_UniqueID =
      CallExpr (SelectorExpr (Ident ''C'') ''clang_getFileUniqueID'')
        [SelectorExpr (Ident ''f'') ''c'', UnaryExpr token_AND (SelectorExpr (Ident ''outID'') ''c'')]"
    by (simp add: nativeCall_eq renamed_def argExpr_def argInner_def isOut_def ex_defs)
  from primary_result_last [of ex_UniqueID] show ?thesis
    unfolding p r c by (simp add: outResult_def outValue_def ty_composite_def)
qed


subsection \<open>Out-parameters\<close>

text \<open>
  C4, as stated, fails on the code: a first parameter that is bound to the receiver
  and is flagged as an out-parameter is skipped by the first loop. It gets no
  local variable and no return value; only its argument is passed by address.
\<close>

theorem receiver_out_parameter_counterexample:
  "isOut (renamed ex_recv_out ! 0) \<and>
   Results (generateASTFunction ex_recv_out) = [] \<and>
   Body (generateASTFunction ex_recv_out) =
     [ExprStmt (CallExpr (SelectorExpr (Ident ''C'') ''clang_fill'')
        [UnaryExpr token_AND (SelectorExpr (Ident ''r'') ''c'')])]"
  by (simp add: synth_defs ex_defs isOut_def)

text \<open>
  C4, amended. For every parameter \<open>p\<close> that is classified as an out-parameter and is
  not the first parameter of a function with a receiver:
  (a) the parameter list consists of the fields \<open>inField\<close> of the processed
  parameters that are not out-parameters, so \<open>p\<close> has none;
  (b) the statements \<open>outStmts p\<close> stand in the body in front of the statement with
  the native call: the declaration \<open>outDecl p\<close> of a variable named like \<open>p\<close>, of
  type \<open>C.prim\<close> for a marshal name \<open>prim\<close> and of the target type otherwise, directly
  followed by \<open>defer p.Dispose()\<close> when the target type is \<open>cxstring\<close>;
  (c) the argument of the native call at the position of \<open>p\<close> is \<open>&\<close> applied to
  \<open>argInner p\<close>: the variable for a marshal name (the transient copy for a native
  string, the field \<open>c\<close> for the marshal name \<open>cxstring\<close>), and the field \<open>c\<close> of the
  variable for a composite;
  (d) \<open>p\<close> is one of the promoted parameters, whose entries \<open>outResult\<close> are the
  front of the result list and whose values \<open>outValue\<close> are the front of the return
  statement, both in the order of the native declaration: the cast \<open>T(p)\<close> for a
  marshal name, \<open>p.String()\<close> with result type \<open>string\<close> for \<open>cxstring\<close> without one,
  the variable itself otherwise.
\<close>

theorem out_parameter_promotion:
  assumes "i < length (f_Parameters f)"
    and "isOut (renamed f ! i)"
    and "\<not> (i = 0 \<and> r_Name (f_Receiver f) \<noteq> [])"
  shows "Params (generateASTFunction f) =
           Some (map inField (filter (\<lambda>q. \<not> isOut q) (processed f))) \<and>
         (\<exists>pre post. take (callPos f) (Body (generateASTFunction f)) =
            pre @ outStmts (renamed f ! i) @ post) \<and>
         callPos f < length (Body (generateASTFunction f)) \<and>
         occurs (nativeCall f) (Body (generateASTFunction f) ! callPos f) \<and>
         nativeCall f =
           CallExpr (SelectorExpr (Ident ''C'') (f_CName f)) (map argExpr (renamed f)) \<and>
         map argExpr (renamed f) ! i = UnaryExpr token_AND (argInner (renamed f ! i)) \<and>
         renamed f ! i \<in> set (promoted f) \<and>
         take (length (promoted f)) (Results (generateASTFunction f)) =
           map outResult (promoted f) \<and>
         (\<exists>rest. last (Body (generateASTFunction f)) =
            ReturnStmt (map outValue (promoted f) @ rest))"
proof -
  let ?p = "renamed f ! i"
  from assms(1) have ne: "f_Parameters f \<noteq> []" by auto
  from processed_nth [OF assms(1) assms(3)] assms(2)
  have mem: "?p \<in> set (promoted f)"
    by (simp add: promoted_def)
  then obtain xs ys where split: "promoted f = xs @ ?p # ys"
    by (auto dest: split_list)
  have "take (callPos f) (Body (generateASTFunction f)) =
      concat (map outStmts xs) @ outStmts ?p @
      (concat (map outStmts ys) @ [emptyLine] @
       concat (map strConv (filter isCString (renamed f))) @
       (if filter isCString (renamed f) = [] then [] else [emptyLine]))"
    by (simp add: generateASTFunction_prelude withParameters_Body split)
  then have b: "\<exists>pre post. take (callPos f) (Body (generateASTFunction f)) =
      pre @ outStmts ?p @ post"
    by blast
  from assms(1) assms(2) have c: "map argExpr (renamed f) ! i = UnaryExpr token_AND (argInner ?p)"
    by (simp add: argExpr_def)
  from mem have "promoted f \<noteq> []" by auto
  from generateASTFunction_return [OF this]
  have d: "\<exists>rest. last (Body (generateASTFunction f)) =
      ReturnStmt (map outValue (promoted f) @ rest)" .
  have r: "take (length (promoted f)) (Results (generateASTFunction f)) =
      map outResult (promoted f)"
    by (simp add: generateASTFunction_Results)
  from generateASTFunction_Params [OF ne] b generateASTFunction_callPos [of f]
    nativeCall_eq [of f] c mem r d
  show ?thesis by simp
qed

theorem out_parameter_promotion_witness:
  "1 < length (f_Parameters ex_UniqueID) \<and> isOut (renamed ex_UniqueID ! 1) \<and>
   \<not> (1 = (0::nat) \<and> r_Name (f_Receiver ex_UniqueID) \<noteq> []) \<and>
   Params (generateASTFunction ex_UniqueID) = Some [] \<and>
   outStmts (renamed ex_UniqueID ! 1) =
     [DeclStmt (GenDecl token_VAR [ValueSpec [''outID''] (Ident ''FileUniqueID'')])] \<and>
   (\<exists>pre post. take (callPos ex_UniqueID) (Body (generateASTFunction ex_UniqueID)) =
      pre @ [DeclStmt (GenDecl token_VAR [ValueSpec [''outID''] (Ident ''FileUniqueID'')])]
      @ post) \<and>
   map argExpr (renamed ex_UniqueID) ! 1 =
     UnaryExpr token_AND (SelectorExpr (Ident ''outID'') ''c'') \<and>
   take 1 (Results (generateASTFunction ex_UniqueID)) = [Field [] (Ident ''FileUniqueID'')] \<and>
   (\<exists>rest. last (Body (generateASTFunction ex_UniqueID)) = ReturnStmt (Ident ''outID'' # rest))"
proof -
  have h: "1 < length (f_Parameters ex_UniqueID)" "isOut (renamed ex_UniqueID ! 1)"
    "\<not> (1 = (0::nat) \<and> r_Name (f_Receiver ex_UniqueID) \<noteq> [])"
    by (simp_all add: renamed_def isOut_def ex_defs)
  have p: "promoted ex_UniqueID = [renamed ex_UniqueID ! 1]"
    "filter (\<lambda>q. \<not> isOut q) (processed ex_UniqueID) = []"
    by (simp_all add: promoted_def processed_def renamed_def isOut_def ex_defs)
  have v: "outStmts (renamed ex_UniqueID ! 1) =
      [DeclStmt (GenDecl token_VAR [ValueSpec [''outID''] (Ident ''FileUniqueID'')])]"
    "argInner (renamed ex_UniqueID ! 1) = SelectorExpr (Ident ''outID'') ''c''"
    "outResult (renamed ex_UniqueID ! 1) = Field [] (Ident ''FileUniqueID'')"
    "outValue (renamed ex_UniqueID ! 1) = Ident ''outID''"
    by (simp_all add: outStmts_def outDecl_def argInner_def outResult_def outValue_def
        renamed_def ex_defs)
  from out_parameter_promotion [OF h] h p v show ?thesis
    by simp
qed

subsection \<open>Native strings\<close>

text \<open>
  C5. For every parameter that is not an out-parameter, has a marshal name and has
  the native type \<open>const char *\<close>: the body in front of the statement with the native
  call ends with the allocation \<open>c_name := C.CString(name)\<close> and the deferred release
  \<open>defer C.free(unsafe.Pointer(c_name))\<close>, followed only by the same pairs of later
  parameters and a blank line, and the argument of the native call at the position of
  the parameter is the transient copy \<open>c_name\<close>.
\<close>

theorem native_string_parameter:
  assumes "i < length (f_Parameters f)"
    and "\<not> isOut (renamed f ! i)"
    and "t_Primitive (p_Type (renamed f ! i)) \<noteq> []"
    and "t_CName (p_Type (renamed f ! i)) = ''const char *''"
  shows "take (callPos f) (Body (generateASTFunction f)) =
           concat (map outStmts (promoted f)) @
           (if promoted f = [] then [] else [emptyLine]) @
           concat (map strConv (filter isCString (take i (renamed f)))) @
           [AssignStmt [Ident (''c_'' @ p_Name (renamed f ! i))] token_DEFINE
              [CallExpr (SelectorExpr (Ident ''C'') ''CString'') [Ident (p_Name (renamed f ! i))]],
            DeferStmt (CallExpr (SelectorExpr (Ident ''C'') ''free'')
              [CallExpr (SelectorExpr (Ident ''unsafe'') ''Pointer'')
                 [Ident (''c_'' @ p_Name (renamed f ! i))]])] @
           concat (map strConv (filter isCString (drop (Suc i) (renamed f)))) @
           [emptyLine] \<and>
         callPos f < length (Body (generateASTFunction f)) \<and>
         occurs (nativeCall f) (Body (generateASTFunction f) ! callPos f) \<and>
         nativeCall f =
           CallExpr (SelectorExpr (Ident ''C'') (f_CName f)) (map argExpr (renamed f)) \<and>
         map argExpr (renamed f) ! i = Ident (''c_'' @ p_Name (renamed f ! i))"
proof -
  let ?p = "renamed f ! i"
  from assms(1) have i: "i < length (renamed f)" by simp
  from assms(3) assms(4) have cs: "isCString ?p" by (simp add: isCString_def)
  from i have "renamed f = take i (renamed f) @ ?p # drop (Suc i) (renamed f)"
    by (simp add: id_take_nth_drop)
  then have "filter isCString (renamed f) =
      filter isCString (take i (renamed f)) @ ?p # filter isCString (drop (Suc i) (renamed f))"
    using cs by (metis filter.simps(2) filter_append)
  then have "g_Body (withParameters f) =
      concat (map outStmts (promoted f)) @ (if promoted f = [] then [] else [emptyLine]) @
      concat (map strConv (filter isCString (take i (renamed f)))) @
      strConv ?p @
      concat (map strConv (filter isCString (drop (Suc i) (renamed f)))) @ [emptyLine]"
    by (simp add: withParameters_Body)
  then have b: "take (callPos f) (Body (generateASTFunction f)) =
      concat (map outStmts (promoted f)) @ (if promoted f = [] then [] else [emptyLine]) @
      concat (map strConv (filter isCString (take i (renamed f)))) @
      [AssignStmt [Ident (''c_'' @ p_Name ?p)] token_DEFINE
         [CallExpr (SelectorExpr (Ident ''C'') ''CString'') [Ident (p_Name ?p)]],
       DeferStmt (CallExpr (SelectorExpr (Ident ''C'') ''free'')
         [CallExpr (SelectorExpr (Ident ''unsafe'') ''Pointer'') [Ident (''c_'' @ p_Name ?p)]])] @
      concat (map strConv (filter isCString (drop (Suc i) (renamed f)))) @ [emptyLine]"
    by (simp add: generateASTFunction_prelude strConv_def strAlloc_def strFree_def)
  from i assms(2) assms(3) assms(4)
  have c: "map argExpr (renamed f) ! i = Ident (''c_'' @ p_Name ?p)"
    by (simp add: argExpr_def argInner_def)
  from b generateASTFunction_callPos [of f] nativeCall_eq [of f] c
  show ?thesis by simp
qed

theorem native_string_parameter_witness:
  "1 < length (f_Parameters ex_File) \<and> \<not> isOut (renamed ex_File ! 1) \<and>
   t_Primitive (p_Type (renamed ex_File ! 1)) \<noteq> [] \<and>
   t_CName (p_Type (renamed ex_File ! 1)) = ''const char *'' \<and>
   take (callPos ex_File) (Body (generateASTFunction ex_File)) =
     [AssignStmt [Ident ''c_file_name''] token_DEFINE
        [CallExpr (SelectorExpr (Ident ''C'') ''CString'') [Ident ''file_name'']],
      DeferStmt (CallExpr (SelectorExpr (Ident ''C'') ''free'')
        [CallExpr (SelectorExpr (Ident ''unsafe'') ''Pointer'') [Ident ''c_file_name'']]),
      emptyLine] \<and>
   map argExpr (renamed ex_File) ! 1 = Ident ''c_file_name''"
proof -
  have h: "1 < length (f_Parameters ex_File)" "\<not> isOut (renamed ex_File ! 1)"
    "t_Primitive (p_Type (renamed ex_File ! 1)) \<noteq> []"
    "t_CName (p_Type (renamed ex_File ! 1)) = ''const char *''"
    by (simp_all add: renamed_def isOut_def ex_defs)
  have p: "promoted ex_File = []" "filter isCString (take 1 (renamed ex_File)) = []"
    "filter isCString (drop (Suc 1) (renamed ex_File)) = []"
    "p_Name (renamed ex_File ! 1) = ''file_name''"
    by (simp_all add: promoted_def processed_def renamed_def isOut_def isCString_def ex_defs)
  from native_string_parameter [OF h] h p show ?thesis
    by simp
qed

end
